theory Spec2Isabelle
  imports Complex_Main "HOL-Library.Sublist"
begin

section \<open>Python strings\<close>

text \<open>
  A Python \<open>str\<close> is a sequence of code points. A \<open>char\<close> stands for one code
  point below 256 (the ASCII and Latin-1 range), so a \<open>string\<close> is a \<open>str\<close> whose
  code points are all below 256. The functions of this section are the library
  methods the repository calls, restricted to that range.
\<close>

definition code :: "char \<Rightarrow> nat" where
  "code c = of_char c"

text \<open>
  \<open>str.lower()\<close>: A..Z and the Latin-1 capitals (all of C0..DE but D7) move up by 32.
  In both ranges the bit of weight 32 is clear, so adding 32 sets that bit.
\<close>

definition lower_char :: "char \<Rightarrow> char" where
  "lower_char c =
     (if (65 \<le> code c \<and> code c \<le> 90) \<or> (192 \<le> code c \<and> code c \<le> 222 \<and> code c \<noteq> 215)
      then (case c of Char b0 b1 b2 b3 b4 b5 b6 b7 \<Rightarrow> Char b0 b1 b2 b3 b4 True b6 b7)
      else c)"

definition py_lower :: "string \<Rightarrow> string" where
  "py_lower s = map lower_char s"

text \<open>The characters \<open>str.strip()\<close> removes: the Unicode white space below 256.\<close>

definition is_space :: "char \<Rightarrow> bool" where
  "is_space c =
     ((9 \<le> code c \<and> code c \<le> 13) \<or> (28 \<le> code c \<and> code c \<le> 32)
      \<or> code c = 133 \<or> code c = 160)"

definition py_strip :: "string \<Rightarrow> string" where
  "py_strip s = rev (dropWhile is_space (rev (dropWhile is_space s)))"

text \<open>
  \<open>s.split(d)\<close> for a one-character separator. The result always has at least one
  piece, so the first branch of the \<open>case\<close> is never taken.
\<close>

fun py_split :: "char \<Rightarrow> string \<Rightarrow> string list" where
  "py_split d [] = [[]]"
| "py_split d (c # cs) =
     (if c = d then [] # py_split d cs
      else (case py_split d cs of [] \<Rightarrow> [[c]] | p # ps \<Rightarrow> (c # p) # ps))"

text \<open>\<open>sub in s\<close>: \<open>sub\<close> starts at some position of \<open>s\<close>.\<close>

fun py_in :: "string \<Rightarrow> string \<Rightarrow> bool" where
  "py_in sub [] = (sub = [])"
| "py_in sub (c # cs) = (prefix sub (c # cs) \<or> py_in sub cs)"

text \<open>The regular-expression classes \<open>\d\<close>, \<open>[a-z]\<close> and \<open>[a-zA-Z0-9_]\<close> below 256.\<close>

definition is_digit :: "char \<Rightarrow> bool" where
  "is_digit c = (48 \<le> code c \<and> code c \<le> 57)"

definition is_az :: "char \<Rightarrow> bool" where
  "is_az c = (97 \<le> code c \<and> code c \<le> 122)"

definition is_word_char :: "char \<Rightarrow> bool" where
  "is_word_char c =
     (is_az c \<or> (65 \<le> code c \<and> code c \<le> 90) \<or> is_digit c \<or> c = CHR ''_'')"

section \<open>hooks.py: the naming resolver\<close>

text \<open>
  \<open>extrair_id_assinatura_do_nome_banco\<close> takes any \<open>str\<close>, so its name is a list
  of characters of any type \<open>'c\<close>, read through three tables: \<open>u_code\<close> gives the
  code point of a character, \<open>u_lower\<close> is \<open>str.lower()\<close> and \<open>u_decimal\<close> is the
  class \<open>\d\<close> of a \<open>str\<close> pattern, which holds every Unicode decimal digit and not
  only 0..9. For a \<open>str\<close> the characters are the code points themselves
  (\<open>'c = nat\<close>, \<open>u_code = id\<close>) and the other two tables are those of the Unicode
  database of the running interpreter; they are parameters here.
\<close>

record 'c unicode =
  u_code :: "'c \<Rightarrow> nat"
  u_lower :: "'c list \<Rightarrow> 'c list"
  u_decimal :: "'c \<Rightarrow> bool"

text \<open>The tables for the strings of code points below 256, where they are known in full.\<close>

definition latin1 :: "char unicode" where
  "latin1 = \<lparr>u_code = code, u_lower = py_lower, u_decimal = is_digit\<rparr>"

text \<open>The class \<open>[a-z]\<close>, on code points.\<close>

definition is_az_code :: "nat \<Rightarrow> bool" where
  "is_az_code n = (97 \<le> n \<and> n \<le> 122)"

text \<open>
  The function matches \<open>^[a-z]{2}_d1_(\d+)_\<close> at the start of the lowered name and
  returns group 1. The code points 95, 100 and 49 are the underscore, \<open>d\<close> and \<open>1\<close>.
  The greedy \<open>\d+\<close> takes the longest run of digits; a shorter run would be followed
  by a digit, never by the underscore, so backtracking cannot find another match.
\<close>

definition extrair_id_assinatura_do_nome_banco ::
  "'c unicode \<Rightarrow> 'c list \<Rightarrow> 'c list option" where
  "extrair_id_assinatura_do_nome_banco U nome_banco =
     (case u_lower U nome_banco of
        a # b # rest \<Rightarrow>
          if is_az_code (u_code U a) \<and> is_az_code (u_code U b)
             \<and> map (u_code U) (take 4 rest) = [95, 100, 49, 95]
          then (let after = drop 4 rest;
                    assinatura_id = takeWhile (u_decimal U) after
                in if assinatura_id \<noteq> []
                      \<and> map (u_code U) (take 1 (dropWhile (u_decimal U) after)) = [95]
                   then Some assinatura_id else None)
          else None
      | _ \<Rightarrow> None)"

text \<open>
  \<open>gerar_nome_banco_dados\<close>: \<open>nome.split(" ")[0].lower()\<close>, the f-string
  \<open>{uf.lower()}_d1_{pk}_{nome_fantasia}\<close>, then \<open>re.sub\<close> deleting every character
  outside \<open>[a-zA-Z0-9_]\<close>.
\<close>

definition gerar_nome_banco_dados :: "string \<Rightarrow> string \<Rightarrow> string \<Rightarrow> string" where
  "gerar_nome_banco_dados pk nome uf =
     (let nome_fantasia = py_lower (hd (py_split CHR '' '' nome));
          nome_banco_dados = py_lower uf @ ''_d1_'' @ pk @ ''_'' @ nome_fantasia
      in filter is_word_char nome_banco_dados)"

text \<open>
  The spec's wording of the same contract: the first white-space-delimited token of the
  display name, lowered, composed and then stripped. It is compared with the code below.
\<close>

definition first_whitespace_token :: "string \<Rightarrow> string" where
  "first_whitespace_token s = takeWhile (\<lambda>c. \<not> is_space c) (dropWhile is_space s)"

definition derive_target_name_spec :: "string \<Rightarrow> string \<Rightarrow> string \<Rightarrow> string" where
  "derive_target_name_spec ident display_name region =
     filter is_word_char
       (py_lower region @ ''_d1_'' @ ident @ ''_''
          @ py_lower (first_whitespace_token display_name))"

section \<open>history.py: the audit ledger\<close>

text \<open>
  JSON values as the workflow handles them (scalars), and a JSON object as an
  association list in key order. The \<open>extra\<close> column holds \<open>json.dumps\<close> of a dict
  and is read back with \<open>json.loads\<close>; the column is modelled by the dict itself.
\<close>

datatype jval = JNull | JBool bool | JInt int | JStr string

type_synonym dict = "(string \<times> jval) list"

record backup_row =
  c_created_at :: string
  c_host :: string
  c_port :: int
  c_database :: string
  c_username :: string
  c_backup_path :: string
  c_size_mb :: "real option"
  c_status :: "string option"
  c_extra :: "dict option"

text \<open>
  The table \<open>backups\<close>: rows by id, and the largest id handed out so far
  (\<open>INTEGER PRIMARY KEY AUTOINCREMENT\<close>).
\<close>

record ledger =
  rows :: "nat \<rightharpoonup> backup_row"
  last_id :: nat

definition record_backup ::
  "string \<Rightarrow> string \<Rightarrow> int \<Rightarrow> string \<Rightarrow> string \<Rightarrow> string \<Rightarrow> real option \<Rightarrow> string option
     \<Rightarrow> dict option \<Rightarrow> ledger \<Rightarrow> nat \<times> ledger" where
  "record_backup now host port database username backup_path size_mb status extra db =
     (let extra_text = (case extra of None \<Rightarrow> None | Some d \<Rightarrow> if d = [] then None else Some d);
          rowid = last_id db + 1;
          row = \<lparr>c_created_at = now, c_host = host, c_port = port, c_database = database,
                 c_username = username, c_backup_path = backup_path, c_size_mb = size_mb,
                 c_status = status, c_extra = extra_text\<rparr>
      in (rowid, db\<lparr>rows := (rows db)(rowid \<mapsto> row), last_id := rowid\<rparr>))"

text \<open>
  \<open>update_backup\<close> collects \<open>status = ?\<close> and \<open>extra = ?\<close> for the arguments that are
  not \<open>None\<close>, returns \<open>False\<close> when there is none, and otherwise runs
  \<open>UPDATE backups SET ... WHERE id = ?\<close> and returns \<open>True\<close>.
\<close>

definition update_row :: "string option \<Rightarrow> dict option \<Rightarrow> backup_row \<Rightarrow> backup_row" where
  "update_row status extra row =
     (let row1 = (case status of None \<Rightarrow> row | Some s \<Rightarrow> row\<lparr>c_status := Some s\<rparr>)
      in (case extra of None \<Rightarrow> row1 | Some d \<Rightarrow> row1\<lparr>c_extra := Some d\<rparr>))"

definition update_backup ::
  "nat \<Rightarrow> string option \<Rightarrow> dict option \<Rightarrow> ledger \<Rightarrow> bool \<times> ledger" where
  "update_backup backup_id status extra db =
     (if status = None \<and> extra = None then (False, db)
      else (True,
            (case rows db backup_id of
               None \<Rightarrow> db
             | Some row \<Rightarrow> db\<lparr>rows := (rows db)(backup_id \<mapsto> update_row status extra row)\<rparr>)))"

definition get_backup :: "nat \<Rightarrow> ledger \<Rightarrow> backup_row option" where
  "get_backup backup_id db = rows db backup_id"

section \<open>restore.py: the restore collaborator and its classifier\<close>

text \<open>
  \<open>int(s)\<close> on a string that \<open>strip()\<close> has already trimmed: an optional sign, then
  decimal digits in which single underscores may separate digits. Anything else raises
  \<open>ValueError\<close> (\<open>None\<close>). The interpreter's limit on the number of digits is not
  modelled.
\<close>

fun parse_digits :: "bool \<Rightarrow> nat \<Rightarrow> string \<Rightarrow> nat option" where
  "parse_digits prev acc [] = (if prev then Some acc else None)"
| "parse_digits prev acc (c # cs) =
     (if is_digit c then parse_digits True (10 * acc + (code c - 48)) cs
      else if c = CHR ''_'' \<and> prev then parse_digits False acc cs
      else None)"

definition py_int :: "string \<Rightarrow> int option" where
  "py_int s =
     (case s of
        [] \<Rightarrow> None
      | c # cs \<Rightarrow>
          if c = CHR ''-'' then map_option (\<lambda>n. - int n) (parse_digits False 0 cs)
          else if c = CHR ''+'' then map_option int (parse_digits False 0 cs)
          else map_option int (parse_digits False 0 s))"

text \<open>The substrings that make an attributed error line benign.\<close>

definition benign_markers :: "string list" where
  "benign_markers = [''must be owner'', ''permission denied'', ''role'', ''does not exist'']"

text \<open>
  One turn of the loop over \<open>stderr_output.split('\n')\<close>, on the pair
  \<open>(critical_errors, warning_count)\<close>.
\<close>

definition scan_line :: "string list \<times> int \<Rightarrow> string \<Rightarrow> string list \<times> int" where
  "scan_line st line =
     (let line_lower = py_lower line;
          critical_errors =
            (if py_in ''error:'' line_lower \<and> py_in ''pg_restore: error:'' line_lower
             then (if \<not> list_ex (\<lambda>x. py_in x line_lower) benign_markers
                   then fst st @ [py_strip line] else fst st)
             else fst st);
          warning_count =
            (if py_in ''warning: errors ignored on restore:'' line_lower
             then (case py_int (py_strip (last (py_split CHR '':'' line))) of
                     Some n \<Rightarrow> n
                   | None \<Rightarrow> snd st)
             else snd st)
      in (critical_errors, warning_count))"

definition scan_stderr :: "string \<Rightarrow> string list \<times> int" where
  "scan_stderr stderr_output =
     (if stderr_output \<noteq> [] then foldl scan_line ([], 0) (py_split CHR 0x0A stderr_output)
      else ([], 0))"

text \<open>What \<open>restore_backup\<close> writes to the logger after the process has run.\<close>

datatype restore_log =
    ErrCriticalCount nat
  | ErrCriticalLine string
  | ErrCriticalMore nat
  | WarnIgnored int
  | WarnIgnoredNote
  | InfoRestoreDone
  | ErrReturnCode int
  | DebugStderr string
  | ErrException string

text \<open>
  \<open>restore_backup\<close> from the outcome of \<open>subprocess.run\<close>: an exception (\<open>Inl\<close>), or
  the captured stderr and the return code. The result is the boolean the controller
  sees, with the log lines.
\<close>

definition restore_backup :: "string + string \<times> int \<Rightarrow> bool \<times> restore_log list" where
  "restore_backup proc =
     (case proc of
        Inl e \<Rightarrow> (False, [ErrException e])
      | Inr (stderr_output, returncode) \<Rightarrow>
          (let critical_errors = fst (scan_stderr stderr_output);
               warning_count = snd (scan_stderr stderr_output)
           in if critical_errors \<noteq> [] then
                (False,
                 [ErrCriticalCount (length critical_errors)]
                 @ map ErrCriticalLine (take 5 critical_errors)
                 @ (if length critical_errors > 5
                    then [ErrCriticalMore (length critical_errors - 5)] else []))
              else
                (let warned = (if warning_count > 0
                               then [WarnIgnored warning_count, WarnIgnoredNote] else [])
                 in if returncode = 0 \<or> (returncode = 1 \<and> warning_count > 0)
                    then (True, warned @ [InfoRestoreDone])
                    else (False,
                          warned @ [ErrReturnCode returncode]
                          @ (if stderr_output \<noteq> [] then [DebugStderr stderr_output] else [])))))"

text \<open>
  The two tests of the loop, named: a line is attributed when its lowered text contains
  \<open>pg_restore: error:\<close> (which already contains \<open>error:\<close>), and benign when it
  contains one of the markers. A critical line is attributed and not benign.
\<close>

definition attributed :: "string \<Rightarrow> bool" where
  "attributed line = py_in ''pg_restore: error:'' (py_lower line)"

definition benign :: "string \<Rightarrow> bool" where
  "benign line = list_ex (\<lambda>x. py_in x (py_lower line)) benign_markers"

definition critical_line :: "string \<Rightarrow> bool" where
  "critical_line line = (attributed line \<and> \<not> benign line)"

definition stderr_lines :: "string \<Rightarrow> string list" where
  "stderr_lines stderr_output = py_split CHR 0x0A stderr_output"

section \<open>database.py: the target gate\<close>

text \<open>
  How a call ends: it returns, it raises an \<open>Exception\<close> (with its text), or it calls
  \<open>sys.exit\<close>. \<open>SystemExit\<close> is not an \<open>Exception\<close>, so \<open>except Exception\<close> lets
  it through.
\<close>

datatype 'a outcome = Return 'a | Raise string | SysExit nat

text \<open>
  What \<open>subprocess.run\<close> gives: a completed process with its return code and stdout,
  or an error starting it.
\<close>

datatype proc = Completed int string | ProcError string

definition check_database_exists :: "proc \<Rightarrow> bool" where
  "check_database_exists p =
     (case p of Completed rc out \<Rightarrow> py_strip out = ''1'' | ProcError e \<Rightarrow> False)"

text \<open>
  \<open>create_database\<close> runs \<open>psql\<close> with \<open>check=True\<close>: a non-zero return code is a
  \<open>CalledProcessError\<close>, caught and turned into \<open>sys.exit(1)\<close>; any other error
  propagates.
\<close>

definition create_database :: "proc \<Rightarrow> unit outcome" where
  "create_database p =
     (case p of
        Completed rc out \<Rightarrow> if rc = 0 then Return () else SysExit 1
      | ProcError e \<Rightarrow> Raise e)"

text \<open>
  \<open>drop_and_create_database\<close>: terminate the connections (return code ignored), drop,
  create.
\<close>

definition drop_and_create_database :: "proc \<Rightarrow> proc \<Rightarrow> proc \<Rightarrow> unit outcome" where
  "drop_and_create_database terminate_p drop_p create_p =
     (case terminate_p of
        ProcError e \<Rightarrow> Raise e
      | Completed rc0 out0 \<Rightarrow>
          (case drop_p of
             ProcError e \<Rightarrow> Raise e
           | Completed rc1 out1 \<Rightarrow>
               if rc1 \<noteq> 0 then SysExit 1
               else (case create_p of
                       ProcError e \<Rightarrow> Raise e
                     | Completed rc2 out2 \<Rightarrow> if rc2 = 0 then Return () else SysExit 1)))"

section \<open>cli.py: the mirror workflow\<close>

text \<open>Python truthiness and \<open>str()\<close> of the values the workflow tests and prints.\<close>

definition truthy_str :: "string option \<Rightarrow> bool" where
  "truthy_str x = (case x of None \<Rightarrow> False | Some s \<Rightarrow> s \<noteq> [])"

text \<open>
  What \<open>response.json()\<close> gives: a JSON object, or any other JSON value (null, a
  number, a string, a list, a boolean). Of the other values the workflow uses the
  truthiness, the text of the \<open>TypeError\<close> that the subscript \<open>['id']\<close> raises on
  them and the text of the \<open>AttributeError\<close> that \<open>.get\<close> raises on them.
\<close>

datatype json = JsonObject dict | JsonOther bool string string

fun truthy_json :: "json \<Rightarrow> bool" where
  "truthy_json (JsonObject d) = (d \<noteq> [])"
| "truthy_json (JsonOther t subscript_error get_error) = t"

fun truthy_jval :: "jval option \<Rightarrow> bool" where
  "truthy_jval None = False"
| "truthy_jval (Some JNull) = False"
| "truthy_jval (Some (JBool b)) = b"
| "truthy_jval (Some (JInt n)) = (n \<noteq> 0)"
| "truthy_jval (Some (JStr s)) = (s \<noteq> [])"

function show_nat :: "nat \<Rightarrow> string" where
  "show_nat n =
     (if n < 10 then [''0123456789'' ! n]
      else show_nat (n div 10) @ [''0123456789'' ! (n mod 10)])"
  by pat_completeness auto
termination
  by (relation "measure id") auto

fun py_str :: "jval \<Rightarrow> string" where
  "py_str JNull = ''None''"
| "py_str (JBool b) = (if b then ''True'' else ''False'')"
| "py_str (JInt n) = (if n < 0 then ''-'' @ show_nat (nat (- n)) else show_nat (nat n))"
| "py_str (JStr s) = s"

text \<open>The texts of \<open>KeyError\<close> and of \<open>AttributeError\<close> on a value that is no string.\<close>

definition key_error :: "string \<Rightarrow> string" where
  "key_error k = [CHR 0x27] @ k @ [CHR 0x27]"

fun type_name :: "jval \<Rightarrow> string" where
  "type_name JNull = ''NoneType''"
| "type_name (JBool b) = ''bool''"
| "type_name (JInt n) = ''int''"
| "type_name (JStr s) = ''str''"

definition attribute_error :: "jval \<Rightarrow> string \<Rightarrow> string" where
  "attribute_error v attr =
     [CHR 0x27] @ type_name v @ [CHR 0x27] @ '' object has no attribute ''
       @ [CHR 0x27] @ attr @ [CHR 0x27]"

text \<open>The configuration after the command-line overrides.\<close>

record config =
  src_host :: string
  src_port :: int
  src_database :: string
  src_user :: string
  src_password :: string
  tgt_host :: string
  tgt_port :: int
  tgt_user :: string
  tgt_password :: string
  parallel_jobs :: int
  drop_existing :: bool

text \<open>
  The environment of one run: how each call to a collaborator ends. Every call site is
  reached at most once in a run. \<open>Some e\<close> in an option field means the call raises
  with text \<open>e\<close>, and \<open>Inl e\<close> in a sum field the same. The source database name is
  a string of code points below 256, so the resolver reads it with the tables
  \<open>latin1\<close>.
\<close>

record env =
  e_create_backup :: "string + char \<times> string"
  e_stat_size :: "nat option"
  e_now :: string
  e_record_backup :: "string option"
  e_fetch :: "string + json"
  e_clone :: "string + json"
  e_email_usuario :: "string option"
  e_link :: "string option"
  e_update_skipped :: "string option"
  e_update_completed :: "string option"
  e_update_failed :: "string option"
  e_exists :: proc
  e_terminate :: proc
  e_drop :: proc
  e_create :: proc
  e_restore :: "string + string \<times> int"
  e_fixup :: "string option"

text \<open>
  The log lines of \<open>mirror\<close> that tell one branch from another, by the place that
  writes them. The banners and the progress lines, written on every path through their
  block, are left out; writing a log line changes nothing else.
\<close>

datatype log_msg =
    WarnNoSubscriptionId
  | DebugNoBackupSize
  | InfoRecordSaved nat
  | WarnFetchEmpty
  | InfoSubscription jval
  | InfoCloned "jval option"
  | InfoTargetName string
  | WarnNoEmail
  | InfoLinked
  | WarnLinkSkipped
  | InfoHooksDone
  | ErrHooks string
  | ErrRestoreAbortedHooks
  | WarnHistory string
  | ErrRestoreAbortedHistory
  | ErrStoppedBeforeRestore
  | InfoTarget string
  | WarnRecreating string
  | InfoCreating string
  | FromRestore restore_log
  | InfoEmailUpdated string
  | WarnFixup string
  | WarnNoEmailAfterRestore
  | InfoMirrorDone
  | ErrMirrorErrors

text \<open>The calls to collaborators, and the log lines, in the order they happen.\<close>

datatype event =
    CreateBackup
  | RecordBackup
  | Fetch string
  | Clone dict
  | Link jval string
  | UpdateBackup nat "string option" "dict option"
  | CheckExists string
  | DropAndCreate string
  | CreateDatabase string
  | RestoreBackup string string int
  | Pause
  | UpdateAdminEmail string string
  | CleanupBackup string
  | Log log_msg

text \<open>
  The state of a run: the ledger, the files on disk, the trace, and the three local
  variables of \<open>mirror\<close> that outlive the \<open>try\<close> block.
\<close>

record state =
  ledger_db :: ledger
  files :: "string set"
  trace :: "event list"
  backup_file :: "string option"
  target_database :: string
  hooks_executados_com_sucesso :: bool

definition emit :: "event \<Rightarrow> state \<Rightarrow> state" where
  "emit ev s = s\<lparr>trace := trace s @ [ev]\<rparr>"

text \<open>
  Modelled from the spec: \<open>backup.py\<close> is not among the sources. Section 6 gives the
  backup collaborator as \<open>create(connection) -> artifact path\<close>, whose failure is an
  exception, and \<open>cleanup(path)\<close>, which deletes the artifact. The path of a file is
  not the empty string: the environment gives its first character and the rest.
\<close>

definition create_backup :: "env \<Rightarrow> state \<Rightarrow> string outcome \<times> state" where
  "create_backup en s =
     (case e_create_backup en of
        Inl e \<Rightarrow> (Raise e, emit CreateBackup s)
      | Inr (c, cs) \<Rightarrow>
          (Return (c # cs), (emit CreateBackup s)\<lparr>files := insert (c # cs) (files s)\<rparr>))"

definition cleanup_backup :: "string \<Rightarrow> state \<Rightarrow> state" where
  "cleanup_backup path s = (emit (CleanupBackup path) s)\<lparr>files := files s - {path}\<rparr>"

text \<open>A call of \<open>history.update_backup\<close> from the workflow; \<open>fault\<close> makes it raise.\<close>

definition call_update_backup ::
  "string option \<Rightarrow> nat \<Rightarrow> string option \<Rightarrow> dict option \<Rightarrow> state \<Rightarrow> unit outcome \<times> state" where
  "call_update_backup fault record_id status extra s =
     (let s1 = emit (UpdateBackup record_id status extra) s
      in case fault of
           Some e \<Rightarrow> (Raise e, s1)
         | None \<Rightarrow>
             (Return (), s1\<lparr>ledger_db := snd (update_backup record_id status extra (ledger_db s1))\<rparr>))"

text \<open>
  Lines 193 to 197: the three subscripts of the cloned subscription, then
  \<open>gerar_nome_banco_dados\<close>, which calls \<open>nome.split\<close> and then \<open>uf.lower\<close>.
\<close>

definition derive_target :: "dict \<Rightarrow> string outcome" where
  "derive_target assinatura_clonada =
     (case map_of assinatura_clonada ''id'' of
        None \<Rightarrow> Raise (key_error ''id'')
      | Some pk \<Rightarrow>
          (case map_of assinatura_clonada ''ss_nome_fantasia'' of
             None \<Rightarrow> Raise (key_error ''ss_nome_fantasia'')
           | Some nome \<Rightarrow>
               (case map_of assinatura_clonada ''ss_uf'' of
                  None \<Rightarrow> Raise (key_error ''ss_uf'')
                | Some uf \<Rightarrow>
                    (case nome of
                       JStr n \<Rightarrow>
                         (case uf of
                            JStr u \<Rightarrow> Return (gerar_nome_banco_dados (py_str pk) n u)
                          | _ \<Rightarrow> Raise (attribute_error uf ''lower''))
                     | _ \<Rightarrow> Raise (attribute_error nome ''split'')))))"

text \<open>Lines 202 to 243: the link step and the record of success.\<close>

definition link_and_complete ::
  "env \<Rightarrow> string \<Rightarrow> nat \<Rightarrow> jval option \<Rightarrow> state \<Rightarrow> unit outcome \<times> state" where
  "link_and_complete en assinatura_id record_id assinatura_dev_id s =
     (let email_usuario = e_email_usuario en;
          s1 = (if \<not> truthy_str email_usuario then emit (Log WarnNoEmail) s else s);
          linked =
            (if truthy_str email_usuario \<and> truthy_jval assinatura_dev_id
             then (let s2 = emit (Link (the assinatura_dev_id) (the email_usuario)) s1
                   in case e_link en of
                        Some e \<Rightarrow> (Raise e, s2)
                      | None \<Rightarrow> (Return (), emit (Log InfoLinked) s2))
             else (Return (), emit (Log WarnLinkSkipped) s1))
      in case linked of
           (Return u, s3) \<Rightarrow>
             call_update_backup (e_update_completed en) record_id (Some ''hooks_completed'')
               (Some [(''assinatura_id_prod'', JStr assinatura_id),
                      (''assinatura_id_dev'',
                         (case assinatura_dev_id of None \<Rightarrow> JNull | Some v \<Rightarrow> v)),
                      (''email_assinante'',
                         (case email_usuario of None \<Rightarrow> JNull | Some m \<Rightarrow> JStr m)),
                      (''email_usuario'',
                         (case email_usuario of None \<Rightarrow> JNull | Some m \<Rightarrow> JStr m)),
                      (''target_database'', JStr (target_database s3))])
               (emit (Log InfoHooksDone) s3)
         | other \<Rightarrow> other)"

text \<open>Lines 160 to 243: the body of the inner \<open>try\<close>.\<close>

definition hooks_body :: "env \<Rightarrow> string \<Rightarrow> nat \<Rightarrow> state \<Rightarrow> unit outcome \<times> state" where
  "hooks_body en assinatura_id record_id s =
     (let s1 = emit (Fetch assinatura_id) s
      in case e_fetch en of
           Inl e \<Rightarrow> (Raise e, s1)
         | Inr dados_assinatura \<Rightarrow>
             if \<not> truthy_json dados_assinatura then
               call_update_backup (e_update_skipped en) record_id (Some ''hooks_skipped'') None
                 (emit (Log WarnFetchEmpty) s1)
             else
               (case dados_assinatura of
                  JsonOther t subscript_error get_error \<Rightarrow> (Raise subscript_error, s1)
                | JsonObject dados \<Rightarrow>
                    (case map_of dados ''id'' of
                       None \<Rightarrow> (Raise (key_error ''id''), s1)
                     | Some ident \<Rightarrow>
                         (let s2 = emit (Clone dados) (emit (Log (InfoSubscription ident)) s1)
                          in case e_clone en of
                               Inl e \<Rightarrow> (Raise e, s2)
                             | Inr (JsonOther t subscript_error get_error) \<Rightarrow>
                                 (Raise get_error, s2)
                             | Inr (JsonObject assinatura_clonada) \<Rightarrow>
                                 (let assinatura_dev_id = map_of assinatura_clonada ''id'';
                                      s3 = emit (Log (InfoCloned assinatura_dev_id)) s2
                                  in case derive_target assinatura_clonada of
                                       Return name \<Rightarrow>
                                         link_and_complete en assinatura_id record_id
                                           assinatura_dev_id
                                           (emit (Log (InfoTargetName name))
                                              (s3\<lparr>target_database := name\<rparr>))
                                     | Raise e \<Rightarrow> (Raise e, s3)
                                     | SysExit n \<Rightarrow> (SysExit n, s3))))))"

text \<open>Lines 159 to 253: the inner \<open>try\<close> with its handler.\<close>

definition hooks_try :: "env \<Rightarrow> string \<Rightarrow> nat \<Rightarrow> state \<Rightarrow> unit outcome \<times> state" where
  "hooks_try en assinatura_id record_id s =
     (case hooks_body en assinatura_id record_id s of
        (Raise e, s1) \<Rightarrow>
          (case call_update_backup (e_update_failed en) record_id (Some ''hooks_failed'')
                  (Some [(''error'', JStr e)]) (emit (Log (ErrHooks e)) s1) of
             (Return u, s2) \<Rightarrow>
               (Return (),
                emit (Log ErrRestoreAbortedHooks) (s2\<lparr>hooks_executados_com_sucesso := False\<rparr>))
           | other \<Rightarrow> other)
      | other \<Rightarrow> other)"

text \<open>Lines 136 to 253: the body of the outer \<open>try\<close>.\<close>

definition history_body ::
  "env \<Rightarrow> config \<Rightarrow> string option \<Rightarrow> string \<Rightarrow> state \<Rightarrow> unit outcome \<times> state" where
  "history_body en cfg assinatura_id path s =
     (let size_mb = (case e_stat_size en of
                       None \<Rightarrow> 0
                     | Some bytes \<Rightarrow> real bytes / (1024 * 1024));
          s1 = (if e_stat_size en = None then emit (Log DebugNoBackupSize) s else s);
          s2 = emit RecordBackup s1
      in case e_record_backup en of
           Some e \<Rightarrow> (Raise e, s2)
         | None \<Rightarrow>
             (let r = record_backup (e_now en) (src_host cfg) (src_port cfg) (src_database cfg)
                        (src_user cfg) path (Some size_mb) (Some ''created'') None
                        (ledger_db s2);
                  record_id = fst r;
                  s3 = emit (Log (InfoRecordSaved record_id)) (s2\<lparr>ledger_db := snd r\<rparr>)
              in if truthy_str assinatura_id
                 then hooks_try en (the assinatura_id) record_id s3
                 else (Return (), s3)))"

text \<open>Lines 135 to 261: the outer \<open>try\<close> with its handler.\<close>

definition history_try ::
  "env \<Rightarrow> config \<Rightarrow> string option \<Rightarrow> string \<Rightarrow> state \<Rightarrow> unit outcome \<times> state" where
  "history_try en cfg assinatura_id path s =
     (case history_body en cfg assinatura_id path s of
        (Raise e, s1) \<Rightarrow>
          (let s2 = emit (Log (WarnHistory e)) s1
           in if truthy_str assinatura_id
              then (Return (),
                    emit (Log ErrRestoreAbortedHistory)
                      (s2\<lparr>hooks_executados_com_sucesso := False\<rparr>))
              else (Return (), s2))
      | other \<Rightarrow> other)"

text \<open>Lines 273 to 301: the target gate, as an outcome and as a step of the run.\<close>

definition prepare_outcome :: "env \<Rightarrow> config \<Rightarrow> unit outcome" where
  "prepare_outcome en cfg =
     (let db_exists = check_database_exists (e_exists en)
      in if db_exists \<and> drop_existing cfg
         then drop_and_create_database (e_terminate en) (e_drop en) (e_create en)
         else if \<not> db_exists then create_database (e_create en)
         else Return ())"

definition prepare_target :: "env \<Rightarrow> config \<Rightarrow> state \<Rightarrow> unit outcome \<times> state" where
  "prepare_target en cfg s =
     (let s1 = emit (CheckExists (target_database s)) s;
          db_exists = check_database_exists (e_exists en)
      in if db_exists \<and> drop_existing cfg
         then (prepare_outcome en cfg,
               emit (DropAndCreate (target_database s))
                 (emit (Log (WarnRecreating (target_database s))) s1))
         else if \<not> db_exists
         then (prepare_outcome en cfg,
               emit (CreateDatabase (target_database s))
                 (emit (Log (InfoCreating (target_database s))) s1))
         else (Return (), s1))"

text \<open>Lines 304 to 349: the restore and what follows it.\<close>

definition after_restore :: "env \<Rightarrow> string option \<Rightarrow> state \<Rightarrow> state" where
  "after_restore en assinatura_id s =
     (if truthy_str assinatura_id
      then (if truthy_str (e_email_usuario en)
            then (let s1 = emit (UpdateAdminEmail (the (e_email_usuario en)) (target_database s))
                             (emit Pause s)
                  in case e_fixup en of
                       Some e \<Rightarrow> emit (Log (WarnFixup e)) s1
                     | None \<Rightarrow> emit (Log (InfoEmailUpdated (the (e_email_usuario en)))) s1)
            else emit (Log WarnNoEmailAfterRestore) s)
      else s)"

definition restore_stage ::
  "env \<Rightarrow> config \<Rightarrow> string option \<Rightarrow> string \<Rightarrow> state \<Rightarrow> unit outcome \<times> state" where
  "restore_stage en cfg assinatura_id path s =
     (let s1 = emit (RestoreBackup path (target_database s) (parallel_jobs cfg)) s;
          r = restore_backup (e_restore en);
          s2 = s1\<lparr>trace := trace s1 @ map (\<lambda>l. Log (FromRestore l)) (snd r)\<rparr>
      in if fst r
         then (Return (), emit (Log InfoMirrorDone) (after_restore en assinatura_id s2))
         else (SysExit 1, emit (Log ErrMirrorErrors) s2))"

text \<open>Lines 270 to 349: the target gate, then the restore.\<close>

definition target_and_restore ::
  "env \<Rightarrow> config \<Rightarrow> string option \<Rightarrow> string \<Rightarrow> state \<Rightarrow> unit outcome \<times> state" where
  "target_and_restore en cfg assinatura_id path s =
     (case prepare_target en cfg (emit (Log (InfoTarget (target_database s))) s) of
        (Return v, s1) \<Rightarrow> restore_stage en cfg assinatura_id path s1
      | other \<Rightarrow> other)"

text \<open>How lines 270 to 349 end: as the target gate ends, or else as the restore ends.\<close>

definition target_and_restore_outcome :: "env \<Rightarrow> config \<Rightarrow> unit outcome" where
  "target_and_restore_outcome en cfg =
     (case prepare_outcome en cfg of
        Return v \<Rightarrow> if fst (restore_backup (e_restore en)) then Return () else SysExit 1
      | other \<Rightarrow> other)"

text \<open>Lines 124 to 349: the body of the \<open>try\<close> whose \<open>finally\<close> cleans up.\<close>

definition mirror_body ::
  "env \<Rightarrow> config \<Rightarrow> string option \<Rightarrow> state \<Rightarrow> unit outcome \<times> state" where
  "mirror_body en cfg assinatura_id s =
     (case create_backup en s of
        (Return path, s1) \<Rightarrow>
          (case history_try en cfg assinatura_id path (s1\<lparr>backup_file := Some path\<rparr>) of
             (Return u, s2) \<Rightarrow>
               if \<not> hooks_executados_com_sucesso s2
               then (SysExit 1, emit (Log ErrStoppedBeforeRestore) s2)
               else target_and_restore en cfg assinatura_id path s2
           | other \<Rightarrow> other)
      | (Raise e, s1) \<Rightarrow> (Raise e, s1)
      | (SysExit n, s1) \<Rightarrow> (SysExit n, s1))"

text \<open>
  Lines 104 to 354: \<open>mirror\<close> from the loaded configuration on, started on a ledger
  and a set of files. The \<open>finally\<close> clause runs however the body ends.
\<close>

definition mirror :: "env \<Rightarrow> config \<Rightarrow> ledger \<Rightarrow> string set \<Rightarrow> unit outcome \<times> state" where
  "mirror en cfg db fs =
     (let assinatura_id = extrair_id_assinatura_do_nome_banco latin1 (src_database cfg);
          s0 = \<lparr>ledger_db = db, files = fs,
                trace = (if \<not> truthy_str assinatura_id then [Log WarnNoSubscriptionId] else []),
                backup_file = None, target_database = src_database cfg,
                hooks_executados_com_sucesso = True\<rparr>;
          r = mirror_body en cfg assinatura_id s0
      in if truthy_str (backup_file (snd r))
         then (fst r, cleanup_backup (the (backup_file (snd r))) (snd r))
         else r)"

text \<open>The exit status of the process: an uncaught exception ends it with status 1.\<close>

fun exit_status :: "unit outcome \<Rightarrow> nat" where
  "exit_status (Return u) = 0"
| "exit_status (Raise e) = 1"
| "exit_status (SysExit n) = n"

text \<open>
  The events of the target gate and of the restore, those that can follow the gate, and
  the cleanup.
\<close>

fun is_target_or_restore :: "event \<Rightarrow> bool" where
  "is_target_or_restore (CheckExists d) = True"
| "is_target_or_restore (DropAndCreate d) = True"
| "is_target_or_restore (CreateDatabase d) = True"
| "is_target_or_restore (RestoreBackup f d j) = True"
| "is_target_or_restore ev = False"

fun is_late_event :: "event \<Rightarrow> bool" where
  "is_late_event (CheckExists d) = True"
| "is_late_event (DropAndCreate d) = True"
| "is_late_event (CreateDatabase d) = True"
| "is_late_event (RestoreBackup f d j) = True"
| "is_late_event Pause = True"
| "is_late_event (UpdateAdminEmail m d) = True"
| "is_late_event (Log l) = True"
| "is_late_event ev = False"

fun is_cleanup :: "event \<Rightarrow> bool" where
  "is_cleanup (CleanupBackup f) = True"
| "is_cleanup ev = False"

text \<open>
  A step is quiet when it leaves the artifact variable and the files alone and calls
  no cleanup.
\<close>

definition quiet :: "state \<Rightarrow> state \<Rightarrow> bool" where
  "quiet s s' =
     (backup_file s' = backup_file s \<and> files s' = files s
      \<and> filter is_cleanup (trace s') = filter is_cleanup (trace s))"

text \<open>
  Example runs, after the end-to-end scenario of the spec: the source database
  \<open>rj_d1_77_varejo\<close>, the subscription 77 cloned as 901, every call succeeding, and
  a target that does not exist yet.
\<close>

definition example_cfg :: config where
  "example_cfg =
     \<lparr>src_host = ''prod'', src_port = 5432, src_database = ''rj_d1_77_varejo'',
      src_user = ''postgres'', src_password = ''pw'', tgt_host = ''dev'', tgt_port = 5432,
      tgt_user = ''postgres'', tgt_password = ''pw'', parallel_jobs = 4,
      drop_existing = False\<rparr>"

definition example_env :: env where
  "example_env =
     \<lparr>e_create_backup = Inr (CHR ''/'', ''tmp/b.dump''), e_stat_size = Some 1048576,
      e_now = ''2026-01-01T00:00:00Z'', e_record_backup = None,
      e_fetch = Inr (JsonObject [(''id'', JInt 77), (''ss_nome_fantasia'', JStr ''Varejo Ltda''),
                                 (''ss_uf'', JStr ''RJ'')]),
      e_clone = Inr (JsonObject [(''id'', JInt 901), (''ss_nome_fantasia'', JStr ''Varejo Ltda''),
                                 (''ss_uf'', JStr ''RJ'')]),
      e_email_usuario = Some ''dev@example.com'', e_link = None,
      e_update_skipped = None, e_update_completed = None, e_update_failed = None,
      e_exists = Completed 0 '''', e_terminate = Completed 0 '''', e_drop = Completed 0 '''',
      e_create = Completed 0 '''', e_restore = Inr ('''', 0), e_fixup = None\<rparr>"

text \<open>The JSON value \<open>null\<close>, with the texts Python gives.\<close>

definition json_null :: json where
  "json_null =
     JsonOther False
       ([CHR 0x27] @ ''NoneType'' @ [CHR 0x27] @ '' object is not subscriptable'')
       ([CHR 0x27] @ ''NoneType'' @ [CHR 0x27] @ '' object has no attribute ''
          @ [CHR 0x27] @ ''get'' @ [CHR 0x27])"

definition empty_ledger :: ledger where
  "empty_ledger = \<lparr>rows = Map.empty, last_id = 0\<rparr>"

text \<open>
  Variants of the example run: the clone raises; the clone raises and so does the update
  of the audit record that follows; the fetch returns \<open>null\<close>; the fetch returns
  \<open>null\<close> and the update that follows raises; the creation of the audit record raises;
  a source database whose name holds no correlation key.
\<close>

definition env_clone_fails :: env where
  "env_clone_fails = example_env\<lparr>e_clone := Inl ''clone refused''\<rparr>"

definition env_clone_and_update_fail :: env where
  "env_clone_and_update_fail = env_clone_fails\<lparr>e_update_failed := Some ''database is locked''\<rparr>"

definition env_fetch_empty :: env where
  "env_fetch_empty = example_env\<lparr>e_fetch := Inr json_null\<rparr>"

definition env_fetch_empty_update_fails :: env where
  "env_fetch_empty_update_fails =
     env_fetch_empty\<lparr>e_update_skipped := Some ''database is locked''\<rparr>"

definition env_record_fails :: env where
  "env_record_fails = example_env\<lparr>e_record_backup := Some ''database is locked''\<rparr>"

definition cfg_no_key :: config where
  "cfg_no_key = example_cfg\<lparr>src_database := ''plain''\<rparr>"

section \<open>Properties of the string functions\<close>

lemmas char_defs = code_def lower_char_def py_lower_def is_space_def is_digit_def is_az_def
  is_word_char_def

lemma py_split_nonempty: "py_split d s \<noteq> []"
  by (induction s) (auto split: list.splits)

lemma hd_py_split: "hd (py_split d s) = takeWhile (\<lambda>c. c \<noteq> d) s"
  by (induction s) (auto split: list.splits simp: py_split_nonempty)

lemma py_in_iff: "py_in sub s \<longleftrightarrow> (\<exists>a b. s = a @ sub @ b)"
proof (induction s)
  case Nil
  then show ?case by auto
next
  case (Cons c cs)
  show ?case
  proof
    assume "py_in sub (c # cs)"
    then consider "prefix sub (c # cs)" | "py_in sub cs" by auto
    then show "\<exists>a b. c # cs = a @ sub @ b"
    proof cases
      case 1
      then obtain b where "c # cs = sub @ b" by (auto simp: prefix_def)
      then have "c # cs = [] @ sub @ b" by simp
      then show ?thesis by blast
    next
      case 2
      with Cons obtain a b where "cs = a @ sub @ b" by auto
      then have "c # cs = (c # a) @ sub @ b" by simp
      then show ?thesis by blast
    qed
  next
    assume "\<exists>a b. c # cs = a @ sub @ b"
    then obtain a b where ab: "c # cs = a @ sub @ b" by auto
    show "py_in sub (c # cs)"
    proof (cases a)
      case Nil
      with ab have "prefix sub (c # cs)" by (auto simp: prefix_def)
      then show ?thesis by simp
    next
      case (Cons x a')
      with ab have "cs = a' @ sub @ b" by simp
      with Cons.IH show ?thesis by auto
    qed
  qed
qed

section \<open>The naming resolver\<close>

lemma takeWhile_run_sep:
  assumes "list_all P k" and "\<not> P c"
  shows "takeWhile P (k @ c # rest) = k"
    and "dropWhile P (k @ c # rest) = c # rest"
  using assms by (induction k) auto

lemma extrair_id_some_iff:
  assumes sep: "\<forall>c. u_code U c = 95 \<longrightarrow> \<not> u_decimal U c"
  shows "(extrair_id_assinatura_do_nome_banco U n = Some k) =
     (\<exists>a b p u rest. u_lower U n = a # b # p @ k @ u # rest
        \<and> is_az_code (u_code U a) \<and> is_az_code (u_code U b)
        \<and> map (u_code U) p = [95, 100, 49, 95] \<and> u_code U u = 95
        \<and> k \<noteq> [] \<and> list_all (u_decimal U) k)"
proof
  assume h: "extrair_id_assinatura_do_nome_banco U n = Some k"
  then obtain a b rest where low: "u_lower U n = a # b # rest"
    by (auto simp: extrair_id_assinatura_do_nome_banco_def split: list.splits)
  from h low have az: "is_az_code (u_code U a)" "is_az_code (u_code U b)"
    and pre: "map (u_code U) (take 4 rest) = [95, 100, 49, 95]"
    and k: "k = takeWhile (u_decimal U) (drop 4 rest)" "k \<noteq> []"
    and post: "map (u_code U) (take 1 (dropWhile (u_decimal U) (drop 4 rest))) = [95]"
    by (auto simp: extrair_id_assinatura_do_nome_banco_def Let_def split: if_splits)
  from post obtain u r2 where r2: "dropWhile (u_decimal U) (drop 4 rest) = u # r2"
    and u: "u_code U u = 95"
    by (cases "dropWhile (u_decimal U) (drop 4 rest)") auto
  have "drop 4 rest
          = takeWhile (u_decimal U) (drop 4 rest) @ dropWhile (u_decimal U) (drop 4 rest)"
    by simp
  with r2 k have d4: "drop 4 rest = k @ u # r2" by simp
  have "rest = take 4 rest @ drop 4 rest" by simp
  with d4 have "rest = take 4 rest @ k @ u # r2" by simp
  with low have "u_lower U n = a # b # take 4 rest @ k @ u # r2" by simp
  moreover have "list_all (u_decimal U) k"
    using k(1) by (simp add: list_all_iff) (meson set_takeWhileD)
  ultimately show "\<exists>a b p u rest. u_lower U n = a # b # p @ k @ u # rest
        \<and> is_az_code (u_code U a) \<and> is_az_code (u_code U b)
        \<and> map (u_code U) p = [95, 100, 49, 95] \<and> u_code U u = 95
        \<and> k \<noteq> [] \<and> list_all (u_decimal U) k"
    using az pre u k(2)
    by - (rule exI [of _ a], rule exI [of _ b], rule exI [of _ "take 4 rest"],
          rule exI [of _ u], rule exI [of _ r2], simp)
next
  assume "\<exists>a b p u rest. u_lower U n = a # b # p @ k @ u # rest
        \<and> is_az_code (u_code U a) \<and> is_az_code (u_code U b)
        \<and> map (u_code U) p = [95, 100, 49, 95] \<and> u_code U u = 95
        \<and> k \<noteq> [] \<and> list_all (u_decimal U) k"
  then obtain a b p u rest where low: "u_lower U n = a # b # p @ k @ u # rest"
    and az: "is_az_code (u_code U a)" "is_az_code (u_code U b)"
    and p: "map (u_code U) p = [95, 100, 49, 95]" and u: "u_code U u = 95"
    and k: "k \<noteq> []" "list_all (u_decimal U) k" by (elim exE conjE)
  from p have "length (map (u_code U) p) = 4" by simp
  then have len: "length p = 4" by simp
  from sep u have nd: "\<not> u_decimal U u" by blast
  have t: "takeWhile (u_decimal U) (k @ u # rest) = k"
    and d: "dropWhile (u_decimal U) (k @ u # rest) = u # rest"
    using takeWhile_run_sep [OF k(2) nd] by auto
  show "extrair_id_assinatura_do_nome_banco U n = Some k"
    using low az p u k(1) t d len by (simp add: extrair_id_assinatura_do_nome_banco_def)
qed

lemma extrair_some_nonempty:
  "extrair_id_assinatura_do_nome_banco U n = Some k \<Longrightarrow> k \<noteq> []"
  by (auto simp: extrair_id_assinatura_do_nome_banco_def Let_def
      split: list.splits if_splits)

lemma truthy_extrair:
  "truthy_str (extrair_id_assinatura_do_nome_banco U n)
     = (extrair_id_assinatura_do_nome_banco U n \<noteq> None)"
  by (cases "extrair_id_assinatura_do_nome_banco U n")
     (auto simp: truthy_str_def dest: extrair_some_nonempty)

lemma extrair_examples:
  "extrair_id_assinatura_do_nome_banco latin1 ''sp_d1_123_acme'' = Some ''123''"
  "extrair_id_assinatura_do_nome_banco latin1 ''SP_D1_123_ACME'' = Some ''123''"
  "extrair_id_assinatura_do_nome_banco latin1 ''banco_invalido'' = None"
  by (simp_all add: extrair_id_assinatura_do_nome_banco_def latin1_def is_az_code_def char_defs)

text \<open>
  Beyond ASCII, with the code points themselves as characters: a name that starts with
  two KELVIN SIGN (U+212A, which \<open>str.lower()\<close> turns into \<open>k\<close>) and carries the
  Arabic-Indic digits U+0661 to U+0663 resolves to those digits, for all tables that
  agree with Python's on this name.
\<close>

lemma extrair_beyond_ascii:
  assumes "u_code U = id"
    and "u_lower U [8490, 8490, 95, 68, 49, 95, 1633, 1634, 1635, 95, 120]
           = [107, 107, 95, 100, 49, 95, 1633, 1634, 1635, 95, 120]"
    and "u_decimal U 1633" and "u_decimal U 1634" and "u_decimal U 1635"
    and "\<not> u_decimal U 95"
  shows "extrair_id_assinatura_do_nome_banco U
           [8490, 8490, 95, 68, 49, 95, 1633, 1634, 1635, 95, 120]
         = Some [1633, 1634, 1635]"
  using assms by (simp add: extrair_id_assinatura_do_nome_banco_def is_az_code_def)

text \<open>
  C8. \<open>extrair_id_assinatura_do_nome_banco\<close> is total, on every \<open>str\<close> and for
  all tables in which the underscore is not a decimal digit, as in Python's. It returns
  \<open>k\<close> exactly when the lowered name is two characters a..z, then \<open>_d1_\<close>, then the
  non-empty run \<open>k\<close> of characters of the class \<open>\d\<close>, then an underscore and any
  rest; in every other case it returns \<open>None\<close>. The letters are tested after
  \<open>str.lower()\<close> and the digits are those of \<open>\d\<close>: the match is
  case-insensitive, and the numeric id is a run of decimal digits of any script.
  \<open>sp_d1_123_acme\<close> and \<open>SP_D1_123_ACME\<close> give \<open>123\<close>, \<open>banco_invalido\<close>
  gives nothing.
\<close>

theorem extrair_id_assinatura_matches:
  assumes "\<forall>c. u_code U c = 95 \<longrightarrow> \<not> u_decimal U c"
  shows "((extrair_id_assinatura_do_nome_banco U nome = Some k) =
     (\<exists>a b p u rest. u_lower U nome = a # b # p @ k @ u # rest
        \<and> is_az_code (u_code U a) \<and> is_az_code (u_code U b)
        \<and> map (u_code U) p = [95, 100, 49, 95] \<and> u_code U u = 95
        \<and> k \<noteq> [] \<and> list_all (u_decimal U) k))
   \<and> ((extrair_id_assinatura_do_nome_banco U nome = None) =
     (\<nexists>k a b p u rest. u_lower U nome = a # b # p @ k @ u # rest
        \<and> is_az_code (u_code U a) \<and> is_az_code (u_code U b)
        \<and> map (u_code U) p = [95, 100, 49, 95] \<and> u_code U u = 95
        \<and> k \<noteq> [] \<and> list_all (u_decimal U) k))
   \<and> extrair_id_assinatura_do_nome_banco latin1 ''sp_d1_123_acme'' = Some ''123''
   \<and> extrair_id_assinatura_do_nome_banco latin1 ''SP_D1_123_ACME'' = Some ''123''
   \<and> extrair_id_assinatura_do_nome_banco latin1 ''banco_invalido'' = None"
proof -
  note iff = extrair_id_some_iff [OF assms]
  have none: "(extrair_id_assinatura_do_nome_banco U nome = None) =
     (\<nexists>k a b p u rest. u_lower U nome = a # b # p @ k @ u # rest
        \<and> is_az_code (u_code U a) \<and> is_az_code (u_code U b)
        \<and> map (u_code U) p = [95, 100, 49, 95] \<and> u_code U u = 95
        \<and> k \<noteq> [] \<and> list_all (u_decimal U) k)"
  proof -
    have "(extrair_id_assinatura_do_nome_banco U nome = None) =
            (\<nexists>k. extrair_id_assinatura_do_nome_banco U nome = Some k)" by auto
    also have "\<dots> = (\<nexists>k. \<exists>a b p u rest. u_lower U nome = a # b # p @ k @ u # rest
        \<and> is_az_code (u_code U a) \<and> is_az_code (u_code U b)
        \<and> map (u_code U) p = [95, 100, 49, 95] \<and> u_code U u = 95
        \<and> k \<noteq> [] \<and> list_all (u_decimal U) k)"
      by (simp only: iff)
    finally show ?thesis .
  qed
  show ?thesis using iff [of nome k] none extrair_examples by blast
qed

text \<open>
  The tables of the strings below 256 are such tables, and \<open>SP_D1_123_ACME\<close> lowered
  has the shape of the statement.
\<close>

theorem extrair_id_assinatura_matches_witness:
  "\<not> u_decimal latin1 CHR ''_''
   \<and> (\<exists>a b p u rest. u_lower latin1 ''SP_D1_123_ACME'' = a # b # p @ ''123'' @ u # rest
        \<and> is_az_code (u_code latin1 a) \<and> is_az_code (u_code latin1 b)
        \<and> map (u_code latin1) p = [95, 100, 49, 95] \<and> u_code latin1 u = 95
        \<and> ''123'' \<noteq> [] \<and> list_all (u_decimal latin1) ''123'')"
proof -
  have h: "\<forall>c. u_code latin1 c = 95 \<longrightarrow> \<not> u_decimal latin1 c"
    by (simp add: latin1_def is_digit_def)
  have e: "extrair_id_assinatura_do_nome_banco latin1 ''SP_D1_123_ACME'' = Some ''123''"
    by (simp add: extrair_id_assinatura_do_nome_banco_def latin1_def is_az_code_def char_defs)
  from extrair_id_assinatura_matches [OF h, of "''SP_D1_123_ACME''" "''123''"]
  have "(extrair_id_assinatura_do_nome_banco latin1 ''SP_D1_123_ACME'' = Some ''123'') =
     (\<exists>a b p u rest. u_lower latin1 ''SP_D1_123_ACME'' = a # b # p @ ''123'' @ u # rest
        \<and> is_az_code (u_code latin1 a) \<and> is_az_code (u_code latin1 b)
        \<and> map (u_code latin1) p = [95, 100, 49, 95] \<and> u_code latin1 u = 95
        \<and> ''123'' \<noteq> [] \<and> list_all (u_decimal latin1) ''123'')"
    by (rule conjunct1)
  from this e
  have ex: "\<exists>a b p u rest. u_lower latin1 ''SP_D1_123_ACME'' = a # b # p @ ''123'' @ u # rest
        \<and> is_az_code (u_code latin1 a) \<and> is_az_code (u_code latin1 b)
        \<and> map (u_code latin1) p = [95, 100, 49, 95] \<and> u_code latin1 u = 95
        \<and> ''123'' \<noteq> [] \<and> list_all (u_decimal latin1) ''123''"
    by (rule iffD1)
  have nd: "\<not> u_decimal latin1 CHR ''_''"
    by (simp add: latin1_def is_digit_def code_def)
  from nd ex show ?thesis by (rule conjI)
qed

text \<open>
  C7, as the code has it. \<open>gerar_nome_banco_dados\<close> is total and takes the part of the
  display name before its first space character (only the space delimits; the part is
  empty when the name starts with a space), lowers it, composes
  \<open>region_d1_id_token\<close> with the region lowered, and keeps only ASCII letters, digits
  and underscores. \<open>("55", "Acme Corp", "SP")\<close> gives \<open>sp_d1_55_acme\<close>.
\<close>

theorem gerar_nome_banco_dados_first_space:
  "gerar_nome_banco_dados pk nome uf =
     filter is_word_char
       (py_lower uf @ ''_d1_'' @ pk @ ''_''
          @ py_lower (takeWhile (\<lambda>c. c \<noteq> CHR '' '') nome))
   \<and> list_all is_word_char (gerar_nome_banco_dados pk nome uf)
   \<and> gerar_nome_banco_dados ''55'' ''Acme Corp'' ''SP'' = ''sp_d1_55_acme''"
proof -
  have a: "gerar_nome_banco_dados pk nome uf =
     filter is_word_char
       (py_lower uf @ ''_d1_'' @ pk @ ''_''
          @ py_lower (takeWhile (\<lambda>c. c \<noteq> CHR '' '') nome))"
    by (simp add: gerar_nome_banco_dados_def Let_def hd_py_split)
  have b: "list_all is_word_char (gerar_nome_banco_dados pk nome uf)"
    by (auto simp: gerar_nome_banco_dados_def Let_def list_all_iff)
  have c: "gerar_nome_banco_dados ''55'' ''Acme Corp'' ''SP'' = ''sp_d1_55_acme''"
    by (simp add: gerar_nome_banco_dados_def char_defs)
  from a b c show ?thesis by blast
qed

text \<open>
  C7 as stated fails: a tab is white space but does not end the token. For the display
  name \<open>Acme<TAB>Corp\<close> the first white-space-delimited token is \<open>Acme\<close>, and the
  code returns \<open>sp_d1_55_acmecorp\<close>.
\<close>

theorem gerar_nome_banco_dados_tab_counterexample:
  "derive_target_name_spec ''55'' (''Acme'' @ [CHR 0x09] @ ''Corp'') ''SP'' = ''sp_d1_55_acme''
   \<and> gerar_nome_banco_dados ''55'' (''Acme'' @ [CHR 0x09] @ ''Corp'') ''SP''
       = ''sp_d1_55_acmecorp''
   \<and> gerar_nome_banco_dados ''55'' (''Acme'' @ [CHR 0x09] @ ''Corp'') ''SP''
       \<noteq> derive_target_name_spec ''55'' (''Acme'' @ [CHR 0x09] @ ''Corp'') ''SP''"
  by (simp add: gerar_nome_banco_dados_def derive_target_name_spec_def
      first_whitespace_token_def char_defs)

section \<open>The restore classifier\<close>

lemma attributed_has_error: "py_in ''pg_restore: error:'' s \<Longrightarrow> py_in ''error:'' s"
proof -
  assume "py_in ''pg_restore: error:'' s"
  then obtain a b where "s = a @ ''pg_restore: error:'' @ b" by (auto simp: py_in_iff)
  then have "s = (a @ ''pg_restore: '') @ ''error:'' @ b" by simp
  then show ?thesis unfolding py_in_iff by blast
qed

lemma fst_scan_line:
  "fst (scan_line st l) = (if critical_line l then fst st @ [py_strip l] else fst st)"
  using attributed_has_error [of "py_lower l"]
  by (auto simp: scan_line_def Let_def critical_line_def attributed_def benign_def)

lemma fst_foldl_scan_line:
  "fst (foldl scan_line st ls) = fst st @ map py_strip (filter critical_line ls)"
  by (induction ls arbitrary: st) (simp_all add: fst_scan_line)

lemma critical_errors_eq:
  "fst (scan_stderr err) = map py_strip (filter critical_line (stderr_lines err))"
  by (simp add: scan_stderr_def stderr_lines_def fst_foldl_scan_line critical_line_def
      attributed_def py_lower_def)

text \<open>
  C1, as the code has it. The critical errors are the stripped critical lines of
  stderr, in order. \<open>restore_backup\<close> returns \<open>True\<close> exactly when there is no
  critical line and the exit code is 0, or is 1 with a positive warning count. A
  critical line gives the critical verdict (the critical count is logged) whatever the
  exit code; without one, every other case is the return-code failure.
\<close>

theorem restore_backup_decision:
  "fst (scan_stderr err) = map py_strip (filter critical_line (stderr_lines err))
   \<and> fst (restore_backup (Inr (err, rc))) =
       (filter critical_line (stderr_lines err) = []
        \<and> (rc = 0 \<or> (rc = 1 \<and> 0 < snd (scan_stderr err))))
   \<and> (\<exists>n. ErrCriticalCount n \<in> set (snd (restore_backup (Inr (err, rc))))) =
       (filter critical_line (stderr_lines err) \<noteq> [])
   \<and> (ErrReturnCode rc \<in> set (snd (restore_backup (Inr (err, rc))))) =
       (filter critical_line (stderr_lines err) = []
        \<and> \<not> (rc = 0 \<or> (rc = 1 \<and> 0 < snd (scan_stderr err))))"
proof -
  let ?crit = "filter critical_line (stderr_lines err)"
  have ce: "fst (scan_stderr err) = map py_strip ?crit" by (rule critical_errors_eq)
  have b: "fst (restore_backup (Inr (err, rc))) =
       (?crit = [] \<and> (rc = 0 \<or> (rc = 1 \<and> 0 < snd (scan_stderr err))))"
    by (simp add: restore_backup_def Let_def ce)
  have c: "(\<exists>n. ErrCriticalCount n \<in> set (snd (restore_backup (Inr (err, rc))))) = (?crit \<noteq> [])"
    by (auto simp: restore_backup_def Let_def ce)
  have d: "(ErrReturnCode rc \<in> set (snd (restore_backup (Inr (err, rc))))) =
       (?crit = [] \<and> \<not> (rc = 0 \<or> (rc = 1 \<and> 0 < snd (scan_stderr err))))"
    by (auto simp: restore_backup_def Let_def ce)
  from ce b c d show ?thesis by blast
qed

lemmas restore_eval = restore_backup_def scan_stderr_def scan_line_def py_int_def py_strip_def
  benign_markers_def stderr_lines_def attributed_def benign_def critical_line_def char_defs

text \<open>
  C1 as stated fails: \<open>int\<close> accepts a sign, so the summary line can carry a
  negative count. Here a nonzero count is parsed, there is no critical line and the
  exit code is 1, and the result is \<open>False\<close>: the code asks for a positive count.
\<close>

theorem restore_backup_negative_count_counterexample:
  "fst (scan_stderr ''pg_restore: warning: errors ignored on restore: -3'') = []
   \<and> snd (scan_stderr ''pg_restore: warning: errors ignored on restore: -3'') = - 3
   \<and> snd (scan_stderr ''pg_restore: warning: errors ignored on restore: -3'') \<noteq> 0
   \<and> \<not> fst (restore_backup (Inr (''pg_restore: warning: errors ignored on restore: -3'', 1)))"
  by (simp add: restore_eval)

text \<open>
  C2, as the code has it. When every attributed line of stderr is benign, no critical
  error is collected and the critical branch is not taken; the result is \<open>True\<close>
  exactly when the exit code is 0, or is 1 with a positive warning count.
\<close>

theorem restore_backup_benign_only:
  assumes "list_all (\<lambda>l. attributed l \<longrightarrow> benign l) (stderr_lines err)"
  shows "fst (scan_stderr err) = []
   \<and> fst (restore_backup (Inr (err, rc))) = (rc = 0 \<or> (rc = 1 \<and> 0 < snd (scan_stderr err)))
   \<and> (\<forall>n. ErrCriticalCount n \<notin> set (snd (restore_backup (Inr (err, rc)))))"
proof -
  from assms have crit: "filter critical_line (stderr_lines err) = []"
    by (auto simp: list_all_iff critical_line_def filter_empty_conv)
  have ce: "fst (scan_stderr err) = []" by (simp add: critical_errors_eq crit)
  have b: "fst (restore_backup (Inr (err, rc))) = (rc = 0 \<or> (rc = 1 \<and> 0 < snd (scan_stderr err)))"
    by (simp add: restore_backup_def Let_def ce)
  have c: "\<forall>n. ErrCriticalCount n \<notin> set (snd (restore_backup (Inr (err, rc))))"
    by (auto simp: restore_backup_def Let_def ce)
  from ce b c show ?thesis by blast
qed

text \<open>
  The hypothesis holds for a stderr made of one benign attributed line.
\<close>

theorem restore_backup_benign_only_witness:
  "list_all (\<lambda>l. attributed l \<longrightarrow> benign l)
     (stderr_lines ''pg_restore: error: must be owner of relation x'')
   \<and> attributed ''pg_restore: error: must be owner of relation x''
   \<and> fst (restore_backup (Inr (''pg_restore: error: must be owner of relation x'', 0)))"
proof -
  have h: "list_all (\<lambda>l. attributed l \<longrightarrow> benign l)
     (stderr_lines ''pg_restore: error: must be owner of relation x'')"
    by (simp add: restore_eval)
  have a: "attributed ''pg_restore: error: must be owner of relation x''"
    by (simp add: restore_eval)
  show ?thesis using h a restore_backup_benign_only [OF h, of 0] by simp
qed

text \<open>
  C2 as stated fails: with only a benign attributed line and exit code 2 the result is
  \<open>False\<close>, the return-code failure.
\<close>

theorem restore_backup_benign_exit_code_counterexample:
  "list_all (\<lambda>l. attributed l \<longrightarrow> benign l)
     (stderr_lines ''pg_restore: error: must be owner of relation x'')
   \<and> \<not> fst (restore_backup (Inr (''pg_restore: error: must be owner of relation x'', 2)))"
  by (simp add: restore_eval)

section \<open>The audit ledger\<close>

text \<open>
  C9, as the code has it. For an existing record, an update with an extra map stores
  that map in place of the old one; an update with a status only leaves the stored
  extra as it was and sets the status.
\<close>

theorem update_backup_replaces_extra:
  assumes "rows db i = Some row"
  shows "map_option c_extra (get_backup i (snd (update_backup i status (Some e1) db)))
           = Some (Some e1)
   \<and> map_option c_extra (get_backup i (snd (update_backup i (Some s) None db)))
           = Some (c_extra row)
   \<and> map_option c_status (get_backup i (snd (update_backup i (Some s) None db)))
           = Some (Some s)"
  using assms
  by (cases status) (simp_all add: update_backup_def update_row_def get_backup_def)

text \<open>
  A ledger with one record, updated with a status only.
\<close>

theorem update_backup_replaces_extra_witness:
  "rows \<lparr>rows = [1 \<mapsto> \<lparr>c_created_at = ''t'', c_host = ''h'', c_port = 5432,
             c_database = ''d'', c_username = ''u'', c_backup_path = ''p'',
             c_size_mb = None, c_status = Some ''created'',
             c_extra = Some [(''a'', JInt 1)]\<rparr>], last_id = 1\<rparr> 1
     = Some \<lparr>c_created_at = ''t'', c_host = ''h'', c_port = 5432,
             c_database = ''d'', c_username = ''u'', c_backup_path = ''p'',
             c_size_mb = None, c_status = Some ''created'',
             c_extra = Some [(''a'', JInt 1)]\<rparr>
   \<and> map_option c_extra (get_backup 1 (snd (update_backup 1 (Some ''hooks_skipped'') None
        \<lparr>rows = [1 \<mapsto> \<lparr>c_created_at = ''t'', c_host = ''h'', c_port = 5432,
             c_database = ''d'', c_username = ''u'', c_backup_path = ''p'',
             c_size_mb = None, c_status = Some ''created'',
             c_extra = Some [(''a'', JInt 1)]\<rparr>], last_id = 1\<rparr>)))
     = Some (Some [(''a'', JInt 1)])"
proof -
  let ?row = "\<lparr>c_created_at = ''t'', c_host = ''h'', c_port = 5432,
             c_database = ''d'', c_username = ''u'', c_backup_path = ''p'',
             c_size_mb = None, c_status = Some ''created'',
             c_extra = Some [(''a'', JInt 1)]\<rparr>"
  let ?db = "\<lparr>rows = [1 \<mapsto> ?row], last_id = 1\<rparr>"
  have h: "rows ?db 1 = Some ?row" by simp
  show ?thesis
    using h update_backup_replaces_extra [OF h, of None "[]" "''hooks_skipped''"] by simp
qed

text \<open>
  C9 as stated fails: the record holds the entry \<open>a\<close>, the update brings only
  \<open>b\<close>, and afterwards the stored extra is the update's map, without \<open>a\<close>.
\<close>

theorem update_backup_merge_counterexample:
  "map_of [(''a'', JInt 1)] ''a'' = Some (JInt 1)
   \<and> map_of [(''b'', JInt 2)] ''a'' = None
   \<and> map_option c_extra (get_backup 1 (snd (update_backup 1 None (Some [(''b'', JInt 2)])
        \<lparr>rows = [1 \<mapsto> \<lparr>c_created_at = ''t'', c_host = ''h'', c_port = 5432,
             c_database = ''d'', c_username = ''u'', c_backup_path = ''p'',
             c_size_mb = None, c_status = Some ''created'',
             c_extra = Some [(''a'', JInt 1)]\<rparr>], last_id = 1\<rparr>)))
     = Some (Some [(''b'', JInt 2)])"
  by (simp add: update_backup_def update_row_def get_backup_def)

text \<open>
  C10. \<open>update_backup\<close> returns \<open>False\<close> exactly when neither status nor extra
  is given, and then the ledger is unchanged. With a field given it returns
  \<open>True\<close>, also when no record has the id, and then too the ledger is unchanged.
\<close>

theorem update_backup_result:
  "(fst (update_backup i status extra db) = False) = (status = None \<and> extra = None)
   \<and> ((\<not> fst (update_backup i status extra db) \<and> snd (update_backup i status extra db) = db)
        = (status = None \<and> extra = None))
   \<and> snd (update_backup i None None db) = db
   \<and> (rows db i = None \<longrightarrow>
        snd (update_backup i status extra db) = db
        \<and> fst (update_backup i status extra db) = (status \<noteq> None \<or> extra \<noteq> None))"
  by (auto simp: update_backup_def)

text \<open>
  An update of a record that does not exist returns \<open>True\<close> and changes nothing.
\<close>

theorem update_backup_result_witness:
  "rows \<lparr>rows = Map.empty, last_id = 0\<rparr> 7 = None
   \<and> fst (update_backup 7 (Some ''hooks_failed'') None \<lparr>rows = Map.empty, last_id = 0\<rparr>)
   \<and> snd (update_backup 7 (Some ''hooks_failed'') None \<lparr>rows = Map.empty, last_id = 0\<rparr>)
       = \<lparr>rows = Map.empty, last_id = 0\<rparr>"
  using update_backup_result [of 7 "Some ''hooks_failed''" None "\<lparr>rows = Map.empty, last_id = 0\<rparr>"]
  by simp

section \<open>The mirror workflow\<close>

text \<open>
  The stage of lines 270 to 349 only appends to the trace: log lines, calls of the
  target gate, the restore and what follows it. It calls the gate on the target name it
  is given, and the restore exactly when the gate returns.
\<close>

lemma prepare_target_trace:
  "\<exists>new. trace (snd (prepare_target en cfg s)) = trace s @ new \<and> list_all is_late_event new
     \<and> CheckExists (target_database s) \<in> set new
     \<and> (\<forall>f d j. RestoreBackup f d j \<notin> set new)"
  by (auto simp: prepare_target_def emit_def Let_def)

lemma prepare_target_fields:
  "target_database (snd (prepare_target en cfg s)) = target_database s"
  "ledger_db (snd (prepare_target en cfg s)) = ledger_db s"
  "fst (prepare_target en cfg s) = prepare_outcome en cfg"
  by (auto simp: prepare_target_def prepare_outcome_def emit_def Let_def)

lemma restore_stage_trace:
  "\<exists>new. trace (snd (restore_stage en cfg aid path s)) = trace s @ new
     \<and> list_all is_late_event new
     \<and> (\<forall>f d j. (RestoreBackup f d j \<in> set new)
            = (f = path \<and> d = target_database s \<and> j = parallel_jobs cfg))"
  by (auto simp: restore_stage_def after_restore_def emit_def Let_def list_all_iff
      split: option.splits)

lemma restore_stage_fields:
  "target_database (snd (restore_stage en cfg aid path s)) = target_database s"
  "ledger_db (snd (restore_stage en cfg aid path s)) = ledger_db s"
  by (auto simp: restore_stage_def after_restore_def emit_def Let_def split: option.splits)

lemma late_trace:
  "\<exists>new. trace (snd (target_and_restore en cfg aid path s)) = trace s @ new
     \<and> list_all is_late_event new
     \<and> CheckExists (target_database s) \<in> set new
     \<and> (\<forall>f d j. (RestoreBackup f d j \<in> set new)
            = (prepare_outcome en cfg = Return () \<and> f = path \<and> d = target_database s
               \<and> j = parallel_jobs cfg))"
proof -
  let ?s0 = "emit (Log (InfoTarget (target_database s))) s"
  obtain o1 s1 where p: "prepare_target en cfg ?s0 = (o1, s1)"
    by (cases "prepare_target en cfg ?s0")
  from prepare_target_trace [of en cfg ?s0] p obtain n1 where
    n1: "trace s1 = trace ?s0 @ n1" "list_all is_late_event n1"
        "CheckExists (target_database s) \<in> set n1"
        "\<forall>f d j. RestoreBackup f d j \<notin> set n1"
    by (auto simp: emit_def)
  from prepare_target_fields [of en cfg ?s0] p have
    f1: "target_database s1 = target_database s" "o1 = prepare_outcome en cfg"
    by (auto simp: emit_def)
  show ?thesis
  proof (cases o1)
    case (Return v)
    from restore_stage_trace [of en cfg aid path s1] obtain n2 where
      n2: "trace (snd (restore_stage en cfg aid path s1)) = trace s1 @ n2"
          "list_all is_late_event n2"
          "\<forall>f d j. (RestoreBackup f d j \<in> set n2)
             = (f = path \<and> d = target_database s1 \<and> j = parallel_jobs cfg)"
      by blast
    have "trace (snd (target_and_restore en cfg aid path s))
            = trace s @ (Log (InfoTarget (target_database s)) # n1 @ n2)"
      using p Return n1 n2 by (simp add: target_and_restore_def emit_def)
    moreover have "list_all is_late_event (Log (InfoTarget (target_database s)) # n1 @ n2)"
      using n1 n2 by simp
    ultimately show ?thesis
      using n1 n2 f1 Return
      by (intro exI [of _ "Log (InfoTarget (target_database s)) # n1 @ n2"]) auto
  next
    case (Raise e)
    have "trace (snd (target_and_restore en cfg aid path s))
            = trace s @ (Log (InfoTarget (target_database s)) # n1)"
      using p Raise n1 by (simp add: target_and_restore_def emit_def)
    moreover have "list_all is_late_event (Log (InfoTarget (target_database s)) # n1)"
      using n1 by simp
    ultimately show ?thesis
      using n1 f1 Raise
      by (intro exI [of _ "Log (InfoTarget (target_database s)) # n1"]) auto
  next
    case (SysExit n)
    have "trace (snd (target_and_restore en cfg aid path s))
            = trace s @ (Log (InfoTarget (target_database s)) # n1)"
      using p SysExit n1 by (simp add: target_and_restore_def emit_def)
    moreover have "list_all is_late_event (Log (InfoTarget (target_database s)) # n1)"
      using n1 by simp
    ultimately show ?thesis
      using n1 f1 SysExit
      by (intro exI [of _ "Log (InfoTarget (target_database s)) # n1"]) auto
  qed
qed

lemma late_fields:
  "target_database (snd (target_and_restore en cfg aid path s)) = target_database s"
  "ledger_db (snd (target_and_restore en cfg aid path s)) = ledger_db s"
proof -
  let ?s0 = "emit (Log (InfoTarget (target_database s))) s"
  obtain o1 s1 where p: "prepare_target en cfg ?s0 = (o1, s1)"
    by (cases "prepare_target en cfg ?s0")
  from prepare_target_fields [of en cfg ?s0] p have
    f1: "target_database s1 = target_database s" "ledger_db s1 = ledger_db s"
    by (auto simp: emit_def)
  show "target_database (snd (target_and_restore en cfg aid path s)) = target_database s"
    using p f1 restore_stage_fields [of en cfg aid path s1]
    by (cases o1) (simp_all add: target_and_restore_def)
  show "ledger_db (snd (target_and_restore en cfg aid path s)) = ledger_db s"
    using p f1 restore_stage_fields [of en cfg aid path s1]
    by (cases o1) (simp_all add: target_and_restore_def)
qed

lemma late_outcome:
  "fst (target_and_restore en cfg aid path s) = target_and_restore_outcome en cfg"
proof -
  let ?s0 = "emit (Log (InfoTarget (target_database s))) s"
  obtain o1 s1 where p: "prepare_target en cfg ?s0 = (o1, s1)"
    by (cases "prepare_target en cfg ?s0")
  from prepare_target_fields(3) [of en cfg ?s0] p have o1: "prepare_outcome en cfg = o1"
    by simp
  show ?thesis
    using p
    by (cases o1)
       (simp_all add: o1 target_and_restore_def target_and_restore_outcome_def
          restore_stage_def Let_def)
qed

lemma late_member:
  "\<not> is_late_event ev \<Longrightarrow>
     (ev \<in> set (trace (snd (target_and_restore en cfg aid path s)))) = (ev \<in> set (trace s))"
  using late_trace [of en cfg aid path s] by (auto simp: list_all_iff)

lemma late_mono:
  "ev \<in> set (trace s) \<Longrightarrow> ev \<in> set (trace (snd (target_and_restore en cfg aid path s)))"
  using late_trace [of en cfg aid path s] by auto

lemma late_check:
  "CheckExists (target_database s) \<in> set (trace (snd (target_and_restore en cfg aid path s)))"
  using late_trace [of en cfg aid path s] by auto

lemma late_restore_iff:
  "(RestoreBackup f d j \<in> set (trace (snd (target_and_restore en cfg aid path s))))
     = (RestoreBackup f d j \<in> set (trace s)
        \<or> (prepare_outcome en cfg = Return () \<and> f = path \<and> d = target_database s
            \<and> j = parallel_jobs cfg))"
  using late_trace [of en cfg aid path s] by auto

lemma late_check_at:
  "target_database s = d \<Longrightarrow>
     CheckExists d \<in> set (trace (snd (target_and_restore en cfg aid path s)))"
  using late_check [of s en cfg aid path] by simp

lemmas flow_defs = mirror_def mirror_body_def create_backup_def cleanup_backup_def
  history_try_def history_body_def hooks_try_def hooks_body_def link_and_complete_def
  call_update_backup_def emit_def

lemmas late_simps = late_member late_fields late_check_at late_restore_iff late_outcome

lemmas ledger_defs = record_backup_def update_backup_def update_row_def get_backup_def

text \<open>
  A call that appears in the trace of a run was reached: what came before it
  returned.
\<close>

lemma record_reached:
  assumes "RecordBackup \<in> set (trace (snd (mirror en cfg db fs)))"
  shows "\<exists>c cs. e_create_backup en = Inr (c, cs)"
proof (cases "e_create_backup en")
  case (Inl e)
  with assms show ?thesis
    by (simp add: mirror_def mirror_body_def create_backup_def emit_def Let_def truthy_str_def
        split: if_splits)
next
  case (Inr path)
  then show ?thesis by (cases path) auto
qed

lemma fetch_reached:
  assumes "Fetch k \<in> set (trace (snd (mirror en cfg db fs)))"
  shows "\<exists>c cs. e_create_backup en = Inr (c, cs) \<and> e_record_backup en = None
           \<and> extrair_id_assinatura_do_nome_banco latin1 (src_database cfg) \<noteq> None"
proof (cases "e_create_backup en")
  case (Inl e)
  with assms show ?thesis
    by (simp add: mirror_def mirror_body_def create_backup_def emit_def Let_def truthy_str_def
        split: if_splits)
next
  case (Inr path)
  then obtain c cs where Inr: "e_create_backup en = Inr (c, cs)" by (cases path) auto
  show ?thesis
  proof (cases "e_record_backup en")
    case (Some e)
    with assms Inr show ?thesis
      by (auto simp: flow_defs late_simps Let_def split: if_splits)
  next
    case None
    show ?thesis
    proof (cases "extrair_id_assinatura_do_nome_banco latin1 (src_database cfg)")
      case n: None
      with assms Inr None show ?thesis
        by (auto simp: flow_defs late_simps Let_def truthy_str_def split: if_splits)
    next
      case (Some k')
      with Inr None show ?thesis by blast
    qed
  qed
qed

lemma clone_reached:
  assumes "Clone d \<in> set (trace (snd (mirror en cfg db fs)))"
  shows "\<exists>c cs k d' v. e_create_backup en = Inr (c, cs) \<and> e_record_backup en = None
           \<and> extrair_id_assinatura_do_nome_banco latin1 (src_database cfg) = Some k
           \<and> e_fetch en = Inr (JsonObject d') \<and> d' \<noteq> [] \<and> map_of d' ''id'' = Some v"
proof -
  from assms have "\<not> (e_create_backup en = Inl e)" for e
    by (auto simp: mirror_def mirror_body_def create_backup_def emit_def Let_def truthy_str_def
        split: if_splits)
  then obtain c cs where bk: "e_create_backup en = Inr (c, cs)"
    by (cases "e_create_backup en") auto
  have rec: "e_record_backup en = None"
  proof (rule ccontr)
    assume "e_record_backup en \<noteq> None"
    then obtain e where "e_record_backup en = Some e" by auto
    with assms bk show False
      by (auto simp: flow_defs late_simps Let_def split: if_splits)
  qed
  have "extrair_id_assinatura_do_nome_banco latin1 (src_database cfg) \<noteq> None"
  proof
    assume "extrair_id_assinatura_do_nome_banco latin1 (src_database cfg) = None"
    with assms bk rec show False
      by (auto simp: flow_defs late_simps Let_def truthy_str_def split: if_splits)
  qed
  then obtain k where key: "extrair_id_assinatura_do_nome_banco latin1 (src_database cfg) = Some k"
    by auto
  then have t: "truthy_str (Some k)" by (simp add: truthy_str_def extrair_some_nonempty)
  have "\<not> (e_fetch en = Inl e)" for e
    using assms bk rec key t
    by (auto simp: flow_defs late_simps Let_def split: if_splits option.splits)
  then obtain dados where f: "e_fetch en = Inr dados" by (cases "e_fetch en") auto
  have td: "truthy_json dados"
  proof (rule ccontr)
    assume "\<not> truthy_json dados"
    with assms bk rec key t f show False
      by (auto simp: flow_defs late_simps Let_def split: if_splits option.splits)
  qed
  have "\<not> (dados = JsonOther t e1 e2)" for t e1 e2
    using assms bk rec key t f td
    by (auto simp: flow_defs late_simps Let_def split: if_splits option.splits)
  with td obtain d' where d': "dados = JsonObject d'" "d' \<noteq> []"
    by (cases dados) auto
  have "map_of d' ''id'' \<noteq> None"
  proof
    assume "map_of d' ''id'' = None"
    with assms bk rec key t f td d' show False
      by (auto simp: flow_defs late_simps Let_def split: if_splits option.splits)
  qed
  then obtain v where v: "map_of d' ''id'' = Some v" by auto
  with bk rec key f d' v show ?thesis by blast
qed

text \<open>
  Every stage of the body is quiet: only \<open>create_backup\<close> sets the artifact variable
  and adds a file, and only the \<open>finally\<close> clause calls the cleanup.
\<close>

lemma quiet_refl: "quiet s s"
  by (simp add: quiet_def)

lemma quiet_trans: "quiet s s1 \<Longrightarrow> quiet s1 s2 \<Longrightarrow> quiet s s2"
  by (simp add: quiet_def)

lemma call_update_quiet:
  "call_update_backup fault rid st ex s = (out, s') \<Longrightarrow> quiet s s'"
  by (auto simp: call_update_backup_def emit_def quiet_def Let_def split: option.splits)

lemma link_quiet:
  "link_and_complete en k rid dev s = (out, s') \<Longrightarrow> quiet s s'"
  by (auto simp: link_and_complete_def call_update_backup_def emit_def quiet_def Let_def
      split: option.splits if_splits)

lemma hooks_body_quiet:
  assumes "hooks_body en k rid s = (out, s')"
  shows "quiet s s'"
proof (cases "e_fetch en")
  case (Inl e)
  with assms show ?thesis by (auto simp: hooks_body_def emit_def quiet_def Let_def)
next
  case (Inr dados)
  show ?thesis
  proof (cases "truthy_json dados")
    case False
    with assms Inr have
      "call_update_backup (e_update_skipped en) rid (Some ''hooks_skipped'') None
         (emit (Log WarnFetchEmpty) (emit (Fetch k) s)) = (out, s')"
      by (simp add: hooks_body_def Let_def)
    from call_update_quiet [OF this] show ?thesis by (simp add: quiet_def emit_def)
  next
    case True
    show ?thesis
    proof (cases dados)
      case (JsonOther t e1 e2)
      with assms Inr True show ?thesis
        by (auto simp: hooks_body_def emit_def quiet_def Let_def)
    next
      case (JsonObject d)
      show ?thesis
      proof (cases "map_of d ''id''")
        case None
        with assms Inr True JsonObject show ?thesis
          by (auto simp: hooks_body_def emit_def quiet_def Let_def)
      next
        case (Some ident)
        show ?thesis
        proof (cases "e_clone en")
          case (Inl e)
          with assms Inr True JsonObject Some show ?thesis
            by (auto simp: hooks_body_def emit_def quiet_def Let_def)
        next
          case c: (Inr cloned)
          show ?thesis
          proof (cases cloned)
            case o: (JsonOther t e1 e2)
            with assms Inr True JsonObject Some c show ?thesis
              by (auto simp: hooks_body_def emit_def quiet_def Let_def)
          next
            case o: (JsonObject clonada)
            show ?thesis
            proof (cases "derive_target clonada")
              case (Return name)
              with assms Inr True JsonObject Some c o obtain s3 where
                l: "link_and_complete en k rid (map_of clonada ''id'') s3 = (out, s')"
                and q: "quiet s s3"
                by (auto simp: hooks_body_def emit_def quiet_def Let_def)
              from quiet_trans [OF q link_quiet [OF l]] show ?thesis .
            next
              case (Raise e)
              with assms Inr True JsonObject Some c o show ?thesis
                by (auto simp: hooks_body_def emit_def quiet_def Let_def)
            next
              case (SysExit n)
              with assms Inr True JsonObject Some c o show ?thesis
                by (auto simp: hooks_body_def emit_def quiet_def Let_def)
            qed
          qed
        qed
      qed
    qed
  qed
qed

lemma hooks_try_quiet:
  assumes "hooks_try en k rid s = (out, s')"
  shows "quiet s s'"
proof -
  obtain o1 s1 where b: "hooks_body en k rid s = (o1, s1)" by (cases "hooks_body en k rid s")
  note q1 = hooks_body_quiet [OF b]
  show ?thesis
  proof (cases o1)
    case (Raise e)
    obtain o2 s2 where u: "call_update_backup (e_update_failed en) rid (Some ''hooks_failed'')
        (Some [(''error'', JStr e)]) (emit (Log (ErrHooks e)) s1) = (o2, s2)"
      by (cases "call_update_backup (e_update_failed en) rid (Some ''hooks_failed'')
        (Some [(''error'', JStr e)]) (emit (Log (ErrHooks e)) s1)")
    from call_update_quiet [OF u] have q2: "quiet s1 s2" by (simp add: quiet_def emit_def)
    from assms b Raise u have "quiet s2 s'"
      by (cases o2) (auto simp: hooks_try_def quiet_def emit_def)
    with q1 q2 show ?thesis by (blast intro: quiet_trans)
  next
    case (Return u)
    with assms b q1 show ?thesis by (simp add: hooks_try_def)
  next
    case (SysExit n)
    with assms b q1 show ?thesis by (simp add: hooks_try_def)
  qed
qed

lemma history_body_quiet:
  assumes "history_body en cfg aid path s = (out, s')"
  shows "quiet s s'"
proof (cases "e_record_backup en")
  case (Some e)
  with assms show ?thesis
    by (auto simp: history_body_def emit_def quiet_def Let_def split: if_splits)
next
  case None
  show ?thesis
  proof (cases "truthy_str aid")
    case False
    with assms None show ?thesis
      by (auto simp: history_body_def emit_def quiet_def Let_def split: if_splits)
  next
    case True
    with assms None obtain rid s3 where h: "hooks_try en (the aid) rid s3 = (out, s')"
      and q: "quiet s s3"
      by (auto simp: history_body_def emit_def quiet_def Let_def split: if_splits)
    from quiet_trans [OF q hooks_try_quiet [OF h]] show ?thesis .
  qed
qed

lemma history_try_quiet:
  assumes "history_try en cfg aid path s = (out, s')"
  shows "quiet s s'"
proof -
  obtain o1 s1 where b: "history_body en cfg aid path s = (o1, s1)"
    by (cases "history_body en cfg aid path s")
  note q1 = history_body_quiet [OF b]
  from assms b have "quiet s1 s'"
    by (cases o1) (auto simp: history_try_def quiet_def emit_def Let_def split: if_splits)
  with q1 show ?thesis by (blast intro: quiet_trans)
qed

lemma prepare_target_quiet:
  "prepare_target en cfg s = (out, s') \<Longrightarrow> quiet s s'"
  by (auto simp: prepare_target_def emit_def quiet_def Let_def split: if_splits)

lemma restore_stage_quiet:
  "restore_stage en cfg aid path s = (out, s') \<Longrightarrow> quiet s s'"
  by (auto simp: restore_stage_def after_restore_def emit_def quiet_def Let_def
      split: if_splits option.splits)


lemma target_and_restore_quiet:
  assumes "target_and_restore en cfg aid path s = (out, s')"
  shows "quiet s s'"
proof -
  let ?s0 = "emit (Log (InfoTarget (target_database s))) s"
  have q0: "quiet s ?s0" by (simp add: quiet_def emit_def)
  obtain o1 s1 where p: "prepare_target en cfg ?s0 = (o1, s1)"
    by (cases "prepare_target en cfg ?s0")
  note q1 = prepare_target_quiet [OF p]
  show ?thesis
  proof (cases o1)
    case (Return v)
    with assms p have "restore_stage en cfg aid path s1 = (out, s')"
      by (simp add: target_and_restore_def)
    from restore_stage_quiet [OF this] q0 q1 show ?thesis by (blast intro: quiet_trans)
  next
    case (Raise e)
    with assms p have "s' = s1" by (simp add: target_and_restore_def)
    with q0 q1 show ?thesis by (blast intro: quiet_trans)
  next
    case (SysExit n)
    with assms p have "s' = s1" by (simp add: target_and_restore_def)
    with q0 q1 show ?thesis by (blast intro: quiet_trans)
  qed
qed

lemma mirror_body_created:
  assumes bk: "e_create_backup en = Inr (c, cs)"
      and s: "backup_file s = None" "filter is_cleanup (trace s) = []"
      and r: "mirror_body en cfg aid s = (out, s')"
  shows "backup_file s' = Some (c # cs) \<and> files s' = insert (c # cs) (files s)
     \<and> filter is_cleanup (trace s') = []"
proof -
  let ?s1 = "((emit CreateBackup s)\<lparr>files := insert (c # cs) (files s)\<rparr>)
               \<lparr>backup_file := Some (c # cs)\<rparr>"
  have base: "backup_file ?s1 = Some (c # cs)" "files ?s1 = insert (c # cs) (files s)"
    "filter is_cleanup (trace ?s1) = []"
    using s by (simp_all add: emit_def)
  obtain o2 s2 where h: "history_try en cfg aid (c # cs) ?s1 = (o2, s2)"
    by (cases "history_try en cfg aid (c # cs) ?s1")
  from history_try_quiet [OF h] base have q2: "backup_file s2 = Some (c # cs)"
    "files s2 = insert (c # cs) (files s)" "filter is_cleanup (trace s2) = []"
    by (simp_all add: quiet_def)
  show ?thesis
  proof (cases o2)
    case (Return u)
    show ?thesis
    proof (cases "hooks_executados_com_sucesso s2")
      case False
      with r bk h Return have "s' = emit (Log ErrStoppedBeforeRestore) s2"
        by (simp add: mirror_body_def create_backup_def)
      with q2 show ?thesis by (simp add: emit_def)
    next
      case True
      with r bk h Return have "target_and_restore en cfg aid (c # cs) s2 = (out, s')"
        by (simp add: mirror_body_def create_backup_def)
      from target_and_restore_quiet [OF this] q2 show ?thesis by (simp add: quiet_def)
    qed
  next
    case (Raise e)
    with r bk h have "s' = s2" by (simp add: mirror_body_def create_backup_def)
    with q2 show ?thesis by simp
  next
    case (SysExit n)
    with r bk h have "s' = s2" by (simp add: mirror_body_def create_backup_def)
    with q2 show ?thesis by simp
  qed
qed

lemma mirror_created:
  assumes bk: "e_create_backup en = Inr (c, cs)"
  shows "filter is_cleanup (trace (snd (mirror en cfg db fs))) = [CleanupBackup (c # cs)]
     \<and> last (trace (snd (mirror en cfg db fs))) = CleanupBackup (c # cs)
     \<and> c # cs \<notin> files (snd (mirror en cfg db fs))
     \<and> files (snd (mirror en cfg db fs)) = fs - {c # cs}"
proof -
  let ?aid = "extrair_id_assinatura_do_nome_banco latin1 (src_database cfg)"
  let ?s0 = "\<lparr>ledger_db = db, files = fs,
                trace = (if \<not> truthy_str ?aid then [Log WarnNoSubscriptionId] else []),
                backup_file = None, target_database = src_database cfg,
                hooks_executados_com_sucesso = True\<rparr>"
  obtain out s' where r: "mirror_body en cfg ?aid ?s0 = (out, s')"
    by (cases "mirror_body en cfg ?aid ?s0")
  have "backup_file ?s0 = None" "filter is_cleanup (trace ?s0) = []" by simp_all
  from mirror_body_created [OF bk this r]
  have f: "backup_file s' = Some (c # cs)" "files s' = insert (c # cs) fs"
    "filter is_cleanup (trace s') = []" by simp_all
  have m: "mirror en cfg db fs = (out, cleanup_backup (c # cs) s')"
    using r f by (simp add: mirror_def Let_def truthy_str_def)
  show ?thesis using f by (simp add: m cleanup_backup_def emit_def)
qed

lemma mirror_not_created:
  assumes bk: "e_create_backup en = Inl e"
  shows "fst (mirror en cfg db fs) = Raise e
     \<and> filter is_cleanup (trace (snd (mirror en cfg db fs))) = []
     \<and> files (snd (mirror en cfg db fs)) = fs"
  using bk
  by (simp add: mirror_def mirror_body_def create_backup_def emit_def Let_def truthy_str_def)

text \<open>
  C4. However the run ends, with a return, an exception or \<open>sys.exit\<close>: if
  \<open>create_backup\<close> raised, no cleanup is called and the files are as before; if it
  returned a path, \<open>cleanup_backup\<close> is called exactly once, on that path, as the last
  call of the run, and the path is not among the files afterwards.
\<close>

theorem cleanup_on_every_exit:
  "case e_create_backup en of
     Inl e \<Rightarrow>
       fst (mirror en cfg db fs) = Raise e
       \<and> filter is_cleanup (trace (snd (mirror en cfg db fs))) = []
       \<and> files (snd (mirror en cfg db fs)) = fs
   | Inr (c, cs) \<Rightarrow>
       filter is_cleanup (trace (snd (mirror en cfg db fs))) = [CleanupBackup (c # cs)]
       \<and> last (trace (snd (mirror en cfg db fs))) = CleanupBackup (c # cs)
       \<and> c # cs \<notin> files (snd (mirror en cfg db fs))
       \<and> files (snd (mirror en cfg db fs)) = fs - {c # cs}"
proof (cases "e_create_backup en")
  case (Inl e)
  with mirror_not_created [OF Inl] show ?thesis by simp
next
  case (Inr p)
  obtain c cs where p: "p = (c, cs)" by (cases p)
  with Inr have bk: "e_create_backup en = Inr (c, cs)" by simp
  from mirror_created [OF bk] bk show ?thesis by simp
qed

text \<open>
  The example runs: the key of the example source database, and its target gate.
\<close>

lemma example_key:
  "extrair_id_assinatura_do_nome_banco latin1 (src_database example_cfg) = Some ''77''"
  "extrair_id_assinatura_do_nome_banco latin1 (src_database cfg_no_key) = None"
  by (simp_all add: extrair_id_assinatura_do_nome_banco_def latin1_def is_az_code_def
      char_defs example_cfg_def cfg_no_key_def)

lemmas example_defs = example_env_def env_clone_fails_def env_clone_and_update_fail_def
  env_fetch_empty_def env_fetch_empty_update_fails_def env_record_fails_def json_null_def
  empty_ledger_def

lemma example_prepare:
  "prepare_outcome example_env example_cfg = Return ()"
  "prepare_outcome env_fetch_empty example_cfg = Return ()"
  "prepare_outcome env_record_fails cfg_no_key = Return ()"
  by (simp_all add: prepare_outcome_def check_database_exists_def create_database_def
      py_strip_def example_defs example_cfg_def cfg_no_key_def)

text \<open>
  C3, as the code has it. When the clone call is reached (a key was resolved, the fetch
  returned an object with an id) and raises \<open>msg\<close>: no call of the target gate or of
  the restore is made, the run ends by \<open>sys.exit(1)\<close>, and
  \<open>update_backup(record, "hooks_failed", {"error": msg})\<close> is called. The record
  holds that status and text if the call returns; if the call itself raises, the record
  keeps the status \<open>created\<close> and no extra data.
\<close>

theorem clone_failure_aborts:
  assumes cl: "Clone d \<in> set (trace (snd (mirror en cfg db fs)))"
      and err: "e_clone en = Inl msg"
  shows "extrair_id_assinatura_do_nome_banco latin1 (src_database cfg) \<noteq> None
   \<and> list_all (\<lambda>ev. \<not> is_target_or_restore ev) (trace (snd (mirror en cfg db fs)))
   \<and> fst (mirror en cfg db fs) = SysExit 1
   \<and> exit_status (fst (mirror en cfg db fs)) \<noteq> 0
   \<and> UpdateBackup (last_id db + 1) (Some ''hooks_failed'') (Some [(''error'', JStr msg)])
        \<in> set (trace (snd (mirror en cfg db fs)))
   \<and> map_option c_status
        (get_backup (last_id db + 1) (ledger_db (snd (mirror en cfg db fs))))
          = Some (Some (if e_update_failed en = None then ''hooks_failed'' else ''created''))
   \<and> map_option c_extra
        (get_backup (last_id db + 1) (ledger_db (snd (mirror en cfg db fs))))
          = Some (if e_update_failed en = None then Some [(''error'', JStr msg)] else None)"
proof -
  from clone_reached [OF cl] obtain c cs k d' v where
    facts: "e_create_backup en = Inr (c, cs)" "e_record_backup en = None"
      "extrair_id_assinatura_do_nome_banco latin1 (src_database cfg) = Some k"
      "e_fetch en = Inr (JsonObject d')" "d' \<noteq> []" "map_of d' ''id'' = Some v"
    by blast
  from facts(3) have t: "truthy_str (Some k)"
    by (simp add: truthy_str_def extrair_some_nonempty)
  show ?thesis
  proof (cases "e_update_failed en")
    case None
    with facts t err show ?thesis
      by (simp add: flow_defs ledger_defs Let_def truthy_str_def)
  next
    case (Some e)
    with facts t err show ?thesis
      by (simp add: flow_defs ledger_defs Let_def truthy_str_def)
  qed
qed


text \<open>
  The run of the example in which the clone is refused: the run aborts before the
  restore and the record holds \<open>hooks_failed\<close> with the text.
\<close>

theorem clone_failure_aborts_witness:
  "Clone [(''id'', JInt 77), (''ss_nome_fantasia'', JStr ''Varejo Ltda''), (''ss_uf'', JStr ''RJ'')]
     \<in> set (trace (snd (mirror env_clone_fails example_cfg empty_ledger {})))
   \<and> e_clone env_clone_fails = Inl ''clone refused''
   \<and> fst (mirror env_clone_fails example_cfg empty_ledger {}) = SysExit 1
   \<and> list_all (\<lambda>ev. \<not> is_target_or_restore ev)
        (trace (snd (mirror env_clone_fails example_cfg empty_ledger {})))
   \<and> map_option c_status
        (get_backup 1 (ledger_db (snd (mirror env_clone_fails example_cfg empty_ledger {}))))
          = Some (Some ''hooks_failed'')
   \<and> map_option c_extra
        (get_backup 1 (ledger_db (snd (mirror env_clone_fails example_cfg empty_ledger {}))))
          = Some (Some [(''error'', JStr ''clone refused'')])"
proof -
  have h1: "Clone [(''id'', JInt 77), (''ss_nome_fantasia'', JStr ''Varejo Ltda''),
                   (''ss_uf'', JStr ''RJ'')]
     \<in> set (trace (snd (mirror env_clone_fails example_cfg empty_ledger {})))"
    by (simp add: flow_defs example_key example_defs Let_def truthy_str_def)
  have h2: "e_clone env_clone_fails = Inl ''clone refused''"
    by (simp add: example_defs)
  have h3: "e_update_failed env_clone_fails = None" "last_id empty_ledger = 0"
    by (simp_all add: example_defs)
  show ?thesis
    using h1 h2 clone_failure_aborts [OF h1 h2] by (simp add: h3)
qed


text \<open>
  C3 as stated fails in its second part when the update of the audit record raises too
  (the ledger is locked): the key is resolved, the clone raises, the run aborts, and the
  record keeps the status \<open>created\<close> with no error text.
\<close>

theorem clone_failure_update_raises_counterexample:
  "Clone [(''id'', JInt 77), (''ss_nome_fantasia'', JStr ''Varejo Ltda''), (''ss_uf'', JStr ''RJ'')]
     \<in> set (trace (snd (mirror env_clone_and_update_fail example_cfg empty_ledger {})))
   \<and> extrair_id_assinatura_do_nome_banco latin1 (src_database example_cfg) = Some ''77''
   \<and> e_clone env_clone_and_update_fail = Inl ''clone refused''
   \<and> map_option c_status
        (get_backup 1
           (ledger_db (snd (mirror env_clone_and_update_fail example_cfg empty_ledger {}))))
          = Some (Some ''created'')
   \<and> map_option c_extra
        (get_backup 1
           (ledger_db (snd (mirror env_clone_and_update_fail example_cfg empty_ledger {}))))
          = Some None
   \<and> map_option c_status
        (get_backup 1
           (ledger_db (snd (mirror env_clone_and_update_fail example_cfg empty_ledger {}))))
          \<noteq> Some (Some ''hooks_failed'')"
  by (simp add: flow_defs ledger_defs example_key example_defs Let_def truthy_str_def)


text \<open>
  C5, as the code has it. When the fetch is reached (a key was resolved) and returns a
  falsy value (\<open>null\<close>, an empty object, an empty list and so on):
  \<open>update_backup(record, "hooks_skipped")\<close> is called and the target name stays the
  source name. If that call returns, the record holds \<open>hooks_skipped\<close> and the run
  goes on: the target gate is called on the source name, the restore is called exactly
  when the gate returns, and the run ends as they end. If that call raises, the handler
  of the chain takes over: the run ends by \<open>sys.exit(1)\<close> with no call of the gate
  or of the restore, and the record holds \<open>hooks_failed\<close>, or \<open>created\<close> when
  that second update raises too.
\<close>

theorem empty_fetch_skips_hooks:
  assumes ft: "Fetch k \<in> set (trace (snd (mirror en cfg db fs)))"
      and res: "e_fetch en = Inr dados"
      and emp: "\<not> truthy_json dados"
  shows "extrair_id_assinatura_do_nome_banco latin1 (src_database cfg) \<noteq> None
   \<and> UpdateBackup (last_id db + 1) (Some ''hooks_skipped'') None
        \<in> set (trace (snd (mirror en cfg db fs)))
   \<and> target_database (snd (mirror en cfg db fs)) = src_database cfg
   \<and> map_option c_status
        (get_backup (last_id db + 1) (ledger_db (snd (mirror en cfg db fs))))
          = Some (Some (if e_update_skipped en = None then ''hooks_skipped''
                        else if e_update_failed en = None then ''hooks_failed''
                        else ''created''))
   \<and> (CheckExists (src_database cfg) \<in> set (trace (snd (mirror en cfg db fs))))
        = (e_update_skipped en = None)
   \<and> (\<exists>path. RestoreBackup path (src_database cfg) (parallel_jobs cfg)
                \<in> set (trace (snd (mirror en cfg db fs))))
        = (e_update_skipped en = None \<and> prepare_outcome en cfg = Return ())
   \<and> fst (mirror en cfg db fs)
        = (if e_update_skipped en = None then target_and_restore_outcome en cfg
           else SysExit 1)"
proof -
  from fetch_reached [OF ft] obtain c cs k' where
    facts: "e_create_backup en = Inr (c, cs)" "e_record_backup en = None"
      "extrair_id_assinatura_do_nome_banco latin1 (src_database cfg) = Some k'"
    by blast
  from facts(3) have t: "truthy_str (Some k')"
    by (simp add: truthy_str_def extrair_some_nonempty)
  show ?thesis
  proof (cases "e_update_skipped en")
    case None
    with facts t res emp show ?thesis
      by (simp add: flow_defs late_simps late_mono ledger_defs Let_def truthy_str_def)
  next
    case (Some e)
    with facts t res emp show ?thesis
      by (cases "e_update_failed en")
         (simp_all add: flow_defs late_simps late_mono ledger_defs Let_def truthy_str_def)
  qed
qed


text \<open>
  The run of the example in which the fetch returns \<open>null\<close>: the record holds
  \<open>hooks_skipped\<close>, the target is the source name, the gate and the restore are
  called.
\<close>

theorem empty_fetch_skips_hooks_witness:
  "Fetch ''77'' \<in> set (trace (snd (mirror env_fetch_empty example_cfg empty_ledger {})))
   \<and> e_fetch env_fetch_empty = Inr json_null
   \<and> \<not> truthy_json json_null
   \<and> map_option c_status
        (get_backup 1 (ledger_db (snd (mirror env_fetch_empty example_cfg empty_ledger {}))))
          = Some (Some ''hooks_skipped'')
   \<and> target_database (snd (mirror env_fetch_empty example_cfg empty_ledger {}))
        = ''rj_d1_77_varejo''
   \<and> CheckExists ''rj_d1_77_varejo''
        \<in> set (trace (snd (mirror env_fetch_empty example_cfg empty_ledger {})))
   \<and> (\<exists>path. RestoreBackup path ''rj_d1_77_varejo'' 4
                \<in> set (trace (snd (mirror env_fetch_empty example_cfg empty_ledger {}))))"
proof -
  have h1: "Fetch ''77''
      \<in> set (trace (snd (mirror env_fetch_empty example_cfg empty_ledger {})))"
    by (simp add: flow_defs late_simps example_key example_defs Let_def truthy_str_def)
  have h2: "e_fetch env_fetch_empty = Inr json_null"
    by (simp add: example_defs)
  have h3: "\<not> truthy_json json_null"
    by (simp add: json_null_def)
  have h4: "e_update_skipped env_fetch_empty = None" "last_id empty_ledger = 0"
    "src_database example_cfg = ''rj_d1_77_varejo''" "parallel_jobs example_cfg = 4"
    by (simp_all add: example_defs example_cfg_def)
  show ?thesis
    using h1 h2 h3 empty_fetch_skips_hooks [OF h1 h2 h3]
    by (simp add: h4 example_prepare)
qed


text \<open>
  C5 as stated fails when the update to \<open>hooks_skipped\<close> raises (the ledger is
  locked): the key is resolved and the fetch returns \<open>null\<close> without raising, yet the
  run ends by \<open>sys.exit(1)\<close> before the target gate, and the record holds
  \<open>hooks_failed\<close>.
\<close>

theorem empty_fetch_update_raises_counterexample:
  "Fetch ''77''
     \<in> set (trace (snd (mirror env_fetch_empty_update_fails example_cfg empty_ledger {})))
   \<and> extrair_id_assinatura_do_nome_banco latin1 (src_database example_cfg) = Some ''77''
   \<and> e_fetch env_fetch_empty_update_fails = Inr json_null
   \<and> \<not> truthy_json json_null
   \<and> fst (mirror env_fetch_empty_update_fails example_cfg empty_ledger {}) = SysExit 1
   \<and> list_all (\<lambda>ev. \<not> is_target_or_restore ev)
        (trace (snd (mirror env_fetch_empty_update_fails example_cfg empty_ledger {})))
   \<and> map_option c_status
        (get_backup 1
           (ledger_db (snd (mirror env_fetch_empty_update_fails example_cfg empty_ledger {}))))
          = Some (Some ''hooks_failed'')"
  by (simp add: flow_defs ledger_defs example_key example_defs Let_def truthy_str_def)


text \<open>
  C6. When the creation of the audit record is reached and raises \<open>e\<close>, the warning
  with \<open>e\<close> is logged. With no key resolved the run goes on: the target gate is called
  on the source name, the restore is called exactly when the gate returns, and the run
  ends as they end. With a key resolved the run ends by \<open>sys.exit(1)\<close> with no call
  of the gate or of the restore.
\<close>

theorem audit_record_failure:
  assumes att: "RecordBackup \<in> set (trace (snd (mirror en cfg db fs)))"
      and err: "e_record_backup en = Some e"
  shows "Log (WarnHistory e) \<in> set (trace (snd (mirror en cfg db fs)))
   \<and> (if extrair_id_assinatura_do_nome_banco latin1 (src_database cfg) = None
      then CheckExists (src_database cfg) \<in> set (trace (snd (mirror en cfg db fs)))
           \<and> (\<exists>path. RestoreBackup path (src_database cfg) (parallel_jobs cfg)
                        \<in> set (trace (snd (mirror en cfg db fs))))
                = (prepare_outcome en cfg = Return ())
           \<and> fst (mirror en cfg db fs) = target_and_restore_outcome en cfg
      else fst (mirror en cfg db fs) = SysExit 1
           \<and> exit_status (fst (mirror en cfg db fs)) \<noteq> 0
           \<and> list_all (\<lambda>ev. \<not> is_target_or_restore ev)
                (trace (snd (mirror en cfg db fs)))
           \<and> Log ErrRestoreAbortedHistory \<in> set (trace (snd (mirror en cfg db fs))))"
proof -
  from record_reached [OF att] obtain c cs where bk: "e_create_backup en = Inr (c, cs)"
    by blast
  show ?thesis
  proof (cases "extrair_id_assinatura_do_nome_banco latin1 (src_database cfg)")
    case None
    with bk err show ?thesis
      by (simp add: flow_defs late_simps late_mono Let_def truthy_str_def)
  next
    case (Some k)
    then have t: "truthy_str (Some k)"
      by (simp add: truthy_str_def extrair_some_nonempty)
    show ?thesis
      using bk err Some t
      by (simp add: flow_defs Let_def truthy_str_def)
  qed
qed

text \<open>
  The runs of the example in which the ledger is locked when the record is created,
  with the key of the example and with a source database named \<open>plain\<close>.
\<close>

theorem audit_record_failure_witness:
  "RecordBackup \<in> set (trace (snd (mirror env_record_fails example_cfg empty_ledger {})))
   \<and> RecordBackup \<in> set (trace (snd (mirror env_record_fails cfg_no_key empty_ledger {})))
   \<and> e_record_backup env_record_fails = Some ''database is locked''
   \<and> Log (WarnHistory ''database is locked'')
        \<in> set (trace (snd (mirror env_record_fails cfg_no_key empty_ledger {})))
   \<and> CheckExists ''plain''
        \<in> set (trace (snd (mirror env_record_fails cfg_no_key empty_ledger {})))
   \<and> (\<exists>path. RestoreBackup path ''plain'' 4
                \<in> set (trace (snd (mirror env_record_fails cfg_no_key empty_ledger {}))))
   \<and> fst (mirror env_record_fails example_cfg empty_ledger {}) = SysExit 1
   \<and> list_all (\<lambda>ev. \<not> is_target_or_restore ev)
        (trace (snd (mirror env_record_fails example_cfg empty_ledger {})))"
proof -
  have h1: "RecordBackup
      \<in> set (trace (snd (mirror env_record_fails example_cfg empty_ledger {})))"
    by (simp add: flow_defs late_simps example_key example_defs Let_def truthy_str_def)
  have h2: "RecordBackup
      \<in> set (trace (snd (mirror env_record_fails cfg_no_key empty_ledger {})))"
    by (simp add: flow_defs late_simps late_mono example_key example_defs Let_def
        truthy_str_def)
  have h3: "e_record_backup env_record_fails = Some ''database is locked''"
    by (simp add: example_defs)
  have h4: "src_database cfg_no_key = ''plain''" "parallel_jobs cfg_no_key = 4"
    by (simp_all add: cfg_no_key_def example_cfg_def)
  have h5: "extrair_id_assinatura_do_nome_banco latin1 ''plain'' = None"
    using example_key(2) by (simp add: h4)
  show ?thesis
    using h1 h2 h3 audit_record_failure [OF h1 h3] audit_record_failure [OF h2 h3]
    by (simp add: h4 h5 example_key example_prepare)
qed

end
